theory Spec2Isabelle
  imports Main "HOL-Library.Word"
begin

section \<open>Candidate translator (rpc/webrtc/peer.go, iceCandidateInitToProto and iceCandidateFromProto)\<close>

text \<open>
  The two candidate representations. A Go pointer field (\<^verbatim>\<open>*string\<close>, \<^verbatim>\<open>*uint16\<close>,
  \<^verbatim>\<open>*uint32\<close>) is an \<open>option\<close>: \<open>None\<close> is the nil pointer. The local form is
  \<^verbatim>\<open>webrtc.ICECandidateInit\<close> (line index \<^verbatim>\<open>*uint16\<close>), the wire form is
  \<^verbatim>\<open>webrtcpb.ICECandidate\<close> (line index \<^verbatim>\<open>*uint32\<close>); the widths are the ones of
  the conversions \<^verbatim>\<open>uint32(*ij.SDPMLineIndex)\<close> and \<^verbatim>\<open>uint16(*i.SdpmLineIndex)\<close>.
\<close>

record ICECandidateInit =
  Candidate :: string
  SDPMid :: "string option"
  SDPMLineIndex :: "16 word option"
  UsernameFragment :: "string option"

record pb_ICECandidate =
  pb_Candidate :: string
  pb_SdpMid :: "string option"
  pb_SdpmLineIndex :: "32 word option"
  pb_UsernameFragment :: "string option"

datatype panic = NilPointerDereference

text \<open>peer.go, lines 229-246. The result is the address of a fresh struct, never nil.\<close>

definition iceCandidateInitToProto :: "ICECandidateInit \<Rightarrow> pb_ICECandidate" where
  "iceCandidateInitToProto ij =
     (let candidate = \<lparr>pb_Candidate = Candidate ij, pb_SdpMid = None,
                        pb_SdpmLineIndex = None, pb_UsernameFragment = None\<rparr>;
          candidate = (case SDPMid ij of None \<Rightarrow> candidate
                       | Some val \<Rightarrow> candidate\<lparr>pb_SdpMid := Some val\<rparr>);
          candidate = (case SDPMLineIndex ij of None \<Rightarrow> candidate
                       | Some v \<Rightarrow> candidate\<lparr>pb_SdpmLineIndex := Some (ucast v)\<rparr>);
          candidate = (case UsernameFragment ij of None \<Rightarrow> candidate
                       | Some val \<Rightarrow> candidate\<lparr>pb_UsernameFragment := Some val\<rparr>)
      in candidate)"

text \<open>
  peer.go, lines 248-265. The argument is a pointer; reading \<^verbatim>\<open>i.Candidate\<close> through a nil
  pointer panics.
\<close>

definition iceCandidateFromProto :: "pb_ICECandidate option \<Rightarrow> panic + ICECandidateInit" where
  "iceCandidateFromProto p =
     (case p of
        None \<Rightarrow> Inl NilPointerDereference
      | Some i \<Rightarrow>
          (let candidate = \<lparr>Candidate = pb_Candidate i, SDPMid = None,
                             SDPMLineIndex = None, UsernameFragment = None\<rparr>;
               candidate = (case pb_SdpMid i of None \<Rightarrow> candidate
                            | Some val \<Rightarrow> candidate\<lparr>SDPMid := Some val\<rparr>);
               candidate = (case pb_SdpmLineIndex i of None \<Rightarrow> candidate
                            | Some v \<Rightarrow> candidate\<lparr>SDPMLineIndex := Some (ucast v)\<rparr>);
               candidate = (case pb_UsernameFragment i of None \<Rightarrow> candidate
                            | Some val \<Rightarrow> candidate\<lparr>UsernameFragment := Some val\<rparr>)
           in Inr candidate))"

section \<open>Errors (go.uber.org/multierr, context, gRPC status)\<close>

text \<open>
  An error value is the list of the errors combined in it: the empty list is \<^verbatim>\<open>nil\<close>, a
  one-element list is a plain error, and \<^verbatim>\<open>multierr.Combine\<close> drops nils and flattens,
  which is list append.
\<close>

datatype ctx_cause = Canceled | DeadlineExceeded

datatype err_atom =
    ErrNoWebRTCSignaler
  | CtxErr ctx_cause
  | EOF
  | GrpcStatus nat
  | ErrInitTwice
  | ErrUpdateBeforeInit
  | ErrUUIDMismatch string string
  | ErrUnexpectedStage
  | ErrPanic panic
  | ErrOther string

type_synonym go_error = "err_atom list"

definition Combine :: "go_error \<Rightarrow> go_error \<Rightarrow> go_error" where
  "Combine a b = a @ b"

definition codes_Unimplemented :: nat where
  "codes_Unimplemented = 12"

text \<open>wrtc_client.go, line 180: \<^verbatim>\<open>s, ok := status.FromError(err); ok && s.Code() == codes.Unimplemented\<close>.\<close>

definition is_Unimplemented :: "go_error \<Rightarrow> bool" where
  "is_Unimplemented err = (case err of [GrpcStatus c] \<Rightarrow> c = codes_Unimplemented | _ \<Rightarrow> False)"

text \<open>\<^verbatim>\<open>errors.Is(err, io.EOF)\<close>, line 201.\<close>

definition is_EOF :: "go_error \<Rightarrow> bool" where
  "is_EOF err = (EOF \<in> set err)"

section \<open>Messages and observable calls\<close>

text \<open>
  An inbound message of the call stream: \<^verbatim>\<open>callResp.Uuid\<close> and the \<^verbatim>\<open>Stage\<close> oneof
  (lines 206-240). An update carries a pointer to a wire candidate.
\<close>

datatype stage =
    CallResponse_Init string
  | CallResponse_Update "pb_ICECandidate option"
  | Stage_Other

record CallResponse =
  resp_Uuid :: string
  resp_Stage :: stage

text \<open>The \<^verbatim>\<open>Update\<close> oneof of a \<^verbatim>\<open>CallUpdateRequest\<close> (lines 124-129, 157-162, 266-271).\<close>

datatype update =
    Update_Candidate pb_ICECandidate
  | Update_Done
  | Update_Error go_error

text \<open>
  The calls the dial attempt makes on its collaborators, recorded in the order they are
  made. A request to the signaling service is recorded when the call is issued, whatever
  it returns, and so is \<^verbatim>\<open>clientCh.Close()\<close>; a message of the stream is recorded when
  \<^verbatim>\<open>Recv\<close> returns it; an operation on the peer connection is recorded when it succeeds.
  \<open>Sig_Call\<close> carries the local description of the request, \<open>Sig_CallUpdate\<close> the
  \<^verbatim>\<open>Uuid\<close> and the update.
\<close>

datatype obs =
    Sig_OptionalWebRTCConfig
  | Sig_Call "ICECandidateInit list"
  | Sig_CallUpdate string update
  | Sig_Recv CallResponse
  | PC_SetRemoteDescription string
  | PC_AddICECandidate ICECandidateInit
  | Ch_Close

section \<open>The dial attempt as interleaved threads (rpc/wrtc_client.go, dialWebRTC)\<close>

text \<open>
  Three kinds of thread run one dial attempt: the caller's goroutine executing
  \<^verbatim>\<open>dialWebRTC\<close> (and, inside it at line 97, \<^verbatim>\<open>newPeerConnectionForClient\<close> of
  peer.go), the goroutine started at line 244 that runs \<^verbatim>\<open>exchangeCandidates\<close>, and one
  invocation of the \<^verbatim>\<open>OnICECandidate\<close> callback per candidate event of the engine. Each
  has a program counter naming the statement it executes next: \<open>M_\<close> for the caller's
  goroutine (\<open>M_F_\<close> inside the factory in vanilla mode), \<open>R_\<close> for the receiver, \<open>H_\<close>
  for a callback invocation. A state after a \<^verbatim>\<open>return\<close> carries the pending result.

  What the code calls outside the two source files (the gRPC client, the negotiation
  engine, the description codec, the channel wrapper) is the environment: a call returns
  the error that the event of the step carries.
\<close>

datatype mpc =
    M_dialDirectGRPC
  | M_OptionalWebRTCConfig
  | M_newWebRTCAPI
  | M_NewPeerConnection
  | M_CreateDataChannel
  | M_F_CreateOffer
  | M_F_SetLocalDescription
  | M_F_select
  | M_F_deferClose go_error
  | M_CreateOffer
  | M_OnICECandidate
  | M_SetLocalDescription
  | M_encodeSDP
  | M_Call
  | M_go
  | M_doCall
  | M_callErr go_error
  | M_sendDone
  | M_deferCancel bool go_error
  | M_deferPCClose bool go_error
  | M_deferConnClose bool go_error
  | M_Returned bool go_error

datatype rpc =
    R_NotStarted
  | R_Top
  | R_Recv
  | R_decodeSDP string
  | R_SetRemoteDescription string
  | R_closeRemoteDescSet
  | R_sendDone
  | R_AddICECandidate ICECandidateInit
  | R_sendErr go_error
  | R_Returned

datatype hpc =
    H_check "ICECandidateInit option"
  | H_select "ICECandidateInit option"
  | H_send "ICECandidateInit option"
  | H_sendErr go_error
  | H_Returned

text \<open>
  The shared variables of \<^verbatim>\<open>dialWebRTC\<close>. \<open>ctxErr\<close> is \<^verbatim>\<open>ctx.Err()\<close> and \<open>exchErr\<close> is
  \<^verbatim>\<open>exchangeCtx.Err()\<close> (\<open>None\<close> for nil); \<open>sendDoneErrorOnce\<close> is true once the
  \<^verbatim>\<open>sync.Once\<close> has run; \<open>remoteDescSet\<close> is true once that channel is closed; \<open>chReady\<close>
  is true once \<^verbatim>\<open>clientCh.Ready()\<close> is closed. \<open>log\<close> holds the observable calls, the
  most recent first.

  Modelled from the spec: the negotiation engine (pion) is not part of the repository. Of
  it the state keeps whether a local description is set (which starts gathering), the
  candidates gathered so far (append-only), and whether gathering is complete (after which
  no candidate is reported); \<^verbatim>\<open>pc.LocalDescription()\<close> is represented by the candidates
  gathered when it is read, kept in \<open>encodedSDP\<close> from line 173 to the call of line 178.
\<close>

record state =
  disableTrickle :: bool
  mpc :: mpc
  rpc :: rpc
  hooks :: "hpc list"
  ctxErr :: "ctx_cause option"
  exchErr :: "ctx_cause option"
  uuid :: string
  sendDoneErrorOnce :: bool
  remoteDescSet :: bool
  haveInit :: bool
  hookInstalled :: bool
  localDescSet :: bool
  localCands :: "ICECandidateInit list"
  gatherComplete :: bool
  encodedSDP :: "ICECandidateInit list"
  chReady :: bool
  log :: "obs list"

definition init :: "bool \<Rightarrow> state" where
  "init dt =
     \<lparr>disableTrickle = dt, mpc = M_dialDirectGRPC, rpc = R_NotStarted, hooks = [],
      ctxErr = None, exchErr = None, uuid = [], sendDoneErrorOnce = False,
      remoteDescSet = False, haveInit = False, hookInstalled = False,
      localDescSet = False, localCands = [], gatherComplete = False, encodedSDP = [],
      chReady = False, log = []\<rparr>"

text \<open>
  What the scheduler and the environment decide. A thread's step carries the error its call
  returns (\<open>[]\<close> for nil), and \<open>[]\<close> is required where the statement calls nothing. The
  branches of a \<^verbatim>\<open>select\<close> are separate events, each enabled when its channel is ready.
\<close>

datatype recv_result = RecvOk CallResponse | RecvErr go_error

datatype event =
    CtxCancel ctx_cause
  | DataChannelOpen
  | Gather "ICECandidateInit option"
  | Main go_error
  | MainSelCtxDone go_error
  | MainSelGatherComplete
  | MainSelReady
  | MainSelErrCh "nat option" go_error
  | Recv recv_result
  | RecvStep go_error
  | RecvSelDone
  | HookStep nat go_error
  | HookSelRemoteDescSet nat
  | HookSelDone nat
  | HookSendErrDone nat

subsection \<open>Shared helpers\<close>

text \<open>
  Lines 121-132, \<^verbatim>\<open>sendDone\<close>: the update is sent inside \<^verbatim>\<open>sendDoneErrorOnce.Do\<close>; when
  the guard has already run nothing is called and the result is nil.
\<close>

definition sendDone :: "go_error \<Rightarrow> state \<Rightarrow> (state \<times> go_error) option" where
  "sendDone e s =
     (if sendDoneErrorOnce s then (if e = [] then Some (s, []) else None)
      else Some (s\<lparr>sendDoneErrorOnce := True,
                   log := Sig_CallUpdate (uuid s) Update_Done # log s\<rparr>, e))"

text \<open>\<^verbatim>\<open>exchangeCancel()\<close> (deferred at line 109): cancels the exchange context if it is not yet.\<close>

definition exchangeCancel :: "state \<Rightarrow> state" where
  "exchangeCancel s =
     s\<lparr>exchErr := (case exchErr s of None \<Rightarrow> Some Canceled | Some c \<Rightarrow> Some c)\<rparr>"

text \<open>A step that calls nothing is enabled only with the empty outcome.\<close>

definition nocall :: "go_error \<Rightarrow> state \<Rightarrow> state option" where
  "nocall e s = (if e = [] then Some s else None)"

subsection \<open>The caller's goroutine\<close>

text \<open>
  One sequential step of \<^verbatim>\<open>newPeerConnectionForClient\<close> (peer.go, lines 54-112), called
  at line 97 of \<^verbatim>\<open>dialWebRTC\<close>. Before its \<^verbatim>\<open>defer\<close> (line 65) a failure returns at
  once; after it, a failure first closes the peer connection and combines the errors.
  When the factory returns an error, \<^verbatim>\<open>dialWebRTC\<close> returns it (lines 98-100) with only
  \<^verbatim>\<open>conn.Close()\<close> deferred. The blocking \<^verbatim>\<open>select\<close> of lines 101-105 is not a step
  of this function: its two branches are events of their own.
\<close>

definition newPeerConnectionForClient_step :: "go_error \<Rightarrow> state \<Rightarrow> state option" where
  "newPeerConnectionForClient_step e s =
     (case mpc s of
        M_newWebRTCAPI \<Rightarrow>
          Some (if e \<noteq> [] then s\<lparr>mpc := M_deferConnClose False e\<rparr>
                else s\<lparr>mpc := M_NewPeerConnection\<rparr>)
      | M_NewPeerConnection \<Rightarrow>
          Some (if e \<noteq> [] then s\<lparr>mpc := M_deferConnClose False e\<rparr>
                else s\<lparr>mpc := M_CreateDataChannel\<rparr>)
      | M_CreateDataChannel \<Rightarrow>
          Some (if e \<noteq> [] then s\<lparr>mpc := M_F_deferClose e\<rparr>
                else if disableTrickle s then s\<lparr>mpc := M_F_CreateOffer\<rparr>
                else s\<lparr>mpc := M_CreateOffer\<rparr>)
      | M_F_CreateOffer \<Rightarrow>
          Some (if e \<noteq> [] then s\<lparr>mpc := M_F_deferClose e\<rparr>
                else s\<lparr>mpc := M_F_SetLocalDescription\<rparr>)
      | M_F_SetLocalDescription \<Rightarrow>
          Some (if e \<noteq> [] then s\<lparr>mpc := M_F_deferClose e\<rparr>
                else s\<lparr>localDescSet := True, mpc := M_F_select\<rparr>)
      | M_F_deferClose err \<Rightarrow>
          Some (s\<lparr>mpc := M_deferConnClose False (Combine err e)\<rparr>)
      | _ \<Rightarrow> None)"

text \<open>
  One sequential step of \<^verbatim>\<open>dialWebRTC\<close>. A \<^verbatim>\<open>return\<close> before line 77 returns at once;
  between lines 77 and 102 only \<^verbatim>\<open>conn.Close()\<close> is deferred; after line 109 the deferred
  calls are \<^verbatim>\<open>exchangeCancel()\<close>, \<^verbatim>\<open>pc.Close()\<close> unless \<^verbatim>\<open>successful\<close>, and
  \<^verbatim>\<open>conn.Close()\<close>, each folding its error into the named result. The boolean of the
  return states says whether the channel is returned (it is nil otherwise). The parsing of
  the address (lines 57-61), the timeout of the first connection (line 62) and the merging
  of the configuration (lines 92-96) call nothing that can fail and are left out.
\<close>

definition dialWebRTC_step :: "go_error \<Rightarrow> state \<Rightarrow> state option" where
  "dialWebRTC_step e s =
     (case mpc s of
        M_dialDirectGRPC \<Rightarrow>
          Some (if e \<noteq> [] then s\<lparr>mpc := M_Returned False e\<rparr>
                else s\<lparr>mpc := M_OptionalWebRTCConfig\<rparr>)
      | M_OptionalWebRTCConfig \<Rightarrow>
          (let s = s\<lparr>log := Sig_OptionalWebRTCConfig # log s\<rparr>
           in Some (if e \<noteq> [] then s\<lparr>mpc := M_deferConnClose False e\<rparr>
                    else s\<lparr>mpc := M_newWebRTCAPI\<rparr>))
      | M_newWebRTCAPI \<Rightarrow> newPeerConnectionForClient_step e s
      | M_NewPeerConnection \<Rightarrow> newPeerConnectionForClient_step e s
      | M_CreateDataChannel \<Rightarrow> newPeerConnectionForClient_step e s
      | M_F_CreateOffer \<Rightarrow> newPeerConnectionForClient_step e s
      | M_F_SetLocalDescription \<Rightarrow> newPeerConnectionForClient_step e s
      | M_F_select \<Rightarrow> None
      | M_F_deferClose err \<Rightarrow> newPeerConnectionForClient_step e s
      | M_CreateOffer \<Rightarrow>
          Some (if e \<noteq> [] then s\<lparr>mpc := M_deferCancel False e\<rparr>
                else s\<lparr>mpc := M_OnICECandidate\<rparr>)
      | M_OnICECandidate \<Rightarrow>
          nocall e (s\<lparr>hookInstalled := True, mpc := M_SetLocalDescription\<rparr>)
      | M_SetLocalDescription \<Rightarrow>
          Some (if e \<noteq> [] then s\<lparr>mpc := M_deferCancel False e\<rparr>
                else s\<lparr>localDescSet := True, mpc := M_encodeSDP\<rparr>)
      | M_encodeSDP \<Rightarrow>
          Some (if e \<noteq> [] then s\<lparr>mpc := M_deferCancel False e\<rparr>
                else s\<lparr>encodedSDP := localCands s, mpc := M_Call\<rparr>)
      | M_Call \<Rightarrow>
          (let s = s\<lparr>log := Sig_Call (encodedSDP s) # log s\<rparr>
           in Some (if e \<noteq> [] then
                      (if is_Unimplemented e
                       then s\<lparr>mpc := M_deferCancel False [ErrNoWebRTCSignaler]\<rparr>
                       else s\<lparr>mpc := M_deferCancel False e\<rparr>)
                    else s\<lparr>mpc := M_go\<rparr>))
      | M_go \<Rightarrow> nocall e (s\<lparr>rpc := R_Top, mpc := M_doCall\<rparr>)
      | M_doCall \<Rightarrow> None
      | M_callErr callErr \<Rightarrow>
          (if sendDoneErrorOnce s
           then nocall e (s\<lparr>mpc := M_deferCancel False (Combine callErr [])\<rparr>)
           else Some (s\<lparr>sendDoneErrorOnce := True,
                        log := Sig_CallUpdate (uuid s) (Update_Error callErr) # log s,
                        mpc := M_deferCancel False (Combine callErr e)\<rparr>))
      | M_sendDone \<Rightarrow>
          (case sendDone e s of
             None \<Rightarrow> None
           | Some (s, err) \<Rightarrow>
               Some (if err \<noteq> [] then s\<lparr>mpc := M_deferCancel False err\<rparr>
                     else s\<lparr>mpc := M_deferCancel True []\<rparr>))
      | M_deferCancel ch err \<Rightarrow>
          nocall e ((exchangeCancel s)\<lparr>mpc := (if ch then M_deferConnClose ch err
                                                 else M_deferPCClose ch err)\<rparr>)
      | M_deferPCClose ch err \<Rightarrow>
          Some (s\<lparr>mpc := M_deferConnClose ch (Combine err e)\<rparr>)
      | M_deferConnClose ch err \<Rightarrow>
          Some (s\<lparr>mpc := M_Returned ch (Combine err e)\<rparr>)
      | M_Returned ch err \<Rightarrow> None)"

text \<open>
  The \<^verbatim>\<open>select\<close> of peer.go lines 101-105 (vanilla mode only) and the \<^verbatim>\<open>select\<close> of
  \<^verbatim>\<open>doCall\<close>, lines 253-260. In \<^verbatim>\<open>doCall\<close> the outcome is the result of
  \<^verbatim>\<open>clientCh.Close()\<close>. Receiving from \<^verbatim>\<open>errCh\<close> is a rendezvous with one thread
  blocked in \<^verbatim>\<open>sendErr\<close> (\<open>None\<close> for the receiver goroutine, \<open>Some i\<close> for callback
  invocation \<open>i\<close>), which then returns.
\<close>

definition select_ctx_Done :: "go_error \<Rightarrow> state \<Rightarrow> state option" where
  "select_ctx_Done e s =
     (case ctxErr s of
        None \<Rightarrow> None
      | Some c \<Rightarrow>
          (case mpc s of
             M_F_select \<Rightarrow> nocall e (s\<lparr>mpc := M_F_deferClose [CtxErr c]\<rparr>)
           | M_doCall \<Rightarrow>
               Some (s\<lparr>log := Ch_Close # log s, mpc := M_callErr (Combine [CtxErr c] e)\<rparr>)
           | _ \<Rightarrow> None))"

definition select_gatherComplete :: "state \<Rightarrow> state option" where
  "select_gatherComplete s =
     (if mpc s = M_F_select \<and> gatherComplete s then Some (s\<lparr>mpc := M_encodeSDP\<rparr>) else None)"

definition doCall_Ready :: "state \<Rightarrow> state option" where
  "doCall_Ready s =
     (if mpc s = M_doCall \<and> chReady s then Some (s\<lparr>mpc := M_sendDone\<rparr>) else None)"

definition doCall_errCh :: "nat option \<Rightarrow> go_error \<Rightarrow> state \<Rightarrow> state option" where
  "doCall_errCh sender e s =
     (if mpc s \<noteq> M_doCall then None
      else case sender of
        None \<Rightarrow>
          (case rpc s of
             R_sendErr err \<Rightarrow>
               Some (s\<lparr>rpc := R_Returned, log := Ch_Close # log s,
                       mpc := M_callErr (Combine err e)\<rparr>)
           | _ \<Rightarrow> None)
      | Some i \<Rightarrow>
          (if i < length (hooks s) then
             (case hooks s ! i of
                H_sendErr err \<Rightarrow>
                  Some (s\<lparr>hooks := (hooks s)[i := H_Returned], log := Ch_Close # log s,
                          mpc := M_callErr (Combine err e)\<rparr>)
              | _ \<Rightarrow> None)
           else None))"

subsection \<open>The receiver goroutine (exchangeCandidates, lines 189-250)\<close>

text \<open>
  \<^verbatim>\<open>callClient.Recv()\<close> returns, and the message is dispatched on its stage (lines
  199-240). A panic of \<^verbatim>\<open>iceCandidateFromProto\<close> is captured by
  \<^verbatim>\<open>PanicCapturingGoWithCallback\<close> and reported through \<^verbatim>\<open>sendErr\<close> (lines 248-250).
\<close>

definition exchangeCandidates_Recv :: "recv_result \<Rightarrow> state \<Rightarrow> state option" where
  "exchangeCandidates_Recv r s =
     (if rpc s \<noteq> R_Recv then None
      else case r of
        RecvErr err \<Rightarrow>
          (if err = [] then None
           else if \<not> is_EOF err then Some (s\<lparr>rpc := R_sendErr err\<rparr>)
           else Some (s\<lparr>rpc := R_Returned\<rparr>))
      | RecvOk callResp \<Rightarrow>
          (let s = s\<lparr>log := Sig_Recv callResp # log s\<rparr>
           in case resp_Stage callResp of
             CallResponse_Init sdp \<Rightarrow>
               (if haveInit s then Some (s\<lparr>rpc := R_sendErr [ErrInitTwice]\<rparr>)
                else Some (s\<lparr>haveInit := True, uuid := resp_Uuid callResp,
                             rpc := R_decodeSDP sdp\<rparr>))
           | CallResponse_Update c \<Rightarrow>
               (if \<not> haveInit s then Some (s\<lparr>rpc := R_sendErr [ErrUpdateBeforeInit]\<rparr>)
                else if resp_Uuid callResp \<noteq> uuid s
                then Some (s\<lparr>rpc := R_sendErr [ErrUUIDMismatch (resp_Uuid callResp) (uuid s)]\<rparr>)
                else (case iceCandidateFromProto c of
                        Inl p \<Rightarrow> Some (s\<lparr>rpc := R_sendErr [ErrPanic p]\<rparr>)
                      | Inr cand \<Rightarrow> Some (s\<lparr>rpc := R_AddICECandidate cand\<rparr>)))
           | Stage_Other \<Rightarrow> Some (s\<lparr>rpc := R_sendErr [ErrUnexpectedStage]\<rparr>)))"

definition exchangeCandidates_step :: "go_error \<Rightarrow> state \<Rightarrow> state option" where
  "exchangeCandidates_step e s =
     (case rpc s of
        R_Top \<Rightarrow>
          nocall e (case exchErr s of
                      Some c \<Rightarrow> (if c = Canceled then s\<lparr>rpc := R_Returned\<rparr>
                                 else s\<lparr>rpc := R_sendErr [CtxErr c]\<rparr>)
                    | None \<Rightarrow> s\<lparr>rpc := R_Recv\<rparr>)
      | R_decodeSDP sdp \<Rightarrow>
          Some (if e \<noteq> [] then s\<lparr>rpc := R_sendErr e\<rparr>
                else s\<lparr>rpc := R_SetRemoteDescription sdp\<rparr>)
      | R_SetRemoteDescription sdp \<Rightarrow>
          Some (if e \<noteq> [] then s\<lparr>rpc := R_sendErr e\<rparr>
                else s\<lparr>log := PC_SetRemoteDescription sdp # log s,
                       rpc := R_closeRemoteDescSet\<rparr>)
      | R_closeRemoteDescSet \<Rightarrow>
          nocall e (s\<lparr>remoteDescSet := True,
                      rpc := (if disableTrickle s then R_sendDone else R_Top)\<rparr>)
      | R_sendDone \<Rightarrow>
          (case sendDone e s of
             None \<Rightarrow> None
           | Some (s, err) \<Rightarrow>
               Some (if err \<noteq> [] then s\<lparr>rpc := R_sendErr err\<rparr>
                     else s\<lparr>rpc := R_Returned\<rparr>))
      | R_AddICECandidate cand \<Rightarrow>
          Some (if e \<noteq> [] then s\<lparr>rpc := R_sendErr e\<rparr>
                else s\<lparr>log := PC_AddICECandidate cand # log s, rpc := R_Top\<rparr>)
      | _ \<Rightarrow> None)"

text \<open>\<^verbatim>\<open>sendErr\<close>, lines 112-117, taking the branch \<^verbatim>\<open><-exchangeCtx.Done()\<close>.\<close>

definition exchangeCandidates_sendErr_Done :: "state \<Rightarrow> state option" where
  "exchangeCandidates_sendErr_Done s =
     (case rpc s of
        R_sendErr err \<Rightarrow> (if exchErr s \<noteq> None then Some (s\<lparr>rpc := R_Returned\<rparr>) else None)
      | _ \<Rightarrow> None)"

subsection \<open>The candidate callback (lines 141-165)\<close>

text \<open>
  The engine reports a gathered candidate, or \<open>None\<close> when gathering is complete, and
  invokes the callback if one is installed. The candidate is given as
  \<^verbatim>\<open>i.ToJSON()\<close>, the argument of \<^verbatim>\<open>iceCandidateInitToProto\<close> (peer.go line 226).
\<close>

definition engine_gather :: "ICECandidateInit option \<Rightarrow> state \<Rightarrow> state option" where
  "engine_gather c s =
     (if localDescSet s \<and> \<not> gatherComplete s then
        (let s = (case c of None \<Rightarrow> s\<lparr>gatherComplete := True\<rparr>
                  | Some x \<Rightarrow> s\<lparr>localCands := localCands s @ [x]\<rparr>)
         in Some (if hookInstalled s then s\<lparr>hooks := hooks s @ [H_check c]\<rparr> else s))
      else None)"

definition OnICECandidate_step :: "nat \<Rightarrow> go_error \<Rightarrow> state \<Rightarrow> state option" where
  "OnICECandidate_step i e s =
     (if i < length (hooks s) then
        (case hooks s ! i of
           H_check c \<Rightarrow>
             nocall e (s\<lparr>hooks := (hooks s)[i := (if exchErr s \<noteq> None then H_Returned
                                                    else H_select c)]\<rparr>)
         | H_send None \<Rightarrow>
             (case sendDone e s of
                None \<Rightarrow> None
              | Some (s, err) \<Rightarrow>
                  Some (s\<lparr>hooks := (hooks s)[i := (if err \<noteq> [] then H_sendErr err
                                                    else H_Returned)]\<rparr>))
         | H_send (Some c) \<Rightarrow>
             Some (s\<lparr>log := Sig_CallUpdate (uuid s)
                               (Update_Candidate (iceCandidateInitToProto c)) # log s,
                     hooks := (hooks s)[i := (if e \<noteq> [] then H_sendErr e else H_Returned)]\<rparr>)
         | _ \<Rightarrow> None)
      else None)"

text \<open>The \<^verbatim>\<open>select\<close> of lines 145-149 and the one of \<^verbatim>\<open>sendErr\<close>.\<close>

definition OnICECandidate_remoteDescSet :: "nat \<Rightarrow> state \<Rightarrow> state option" where
  "OnICECandidate_remoteDescSet i s =
     (if i < length (hooks s) then
        (case hooks s ! i of
           H_select c \<Rightarrow>
             (if remoteDescSet s then Some (s\<lparr>hooks := (hooks s)[i := H_send c]\<rparr>) else None)
         | _ \<Rightarrow> None)
      else None)"

definition OnICECandidate_Done :: "nat \<Rightarrow> state \<Rightarrow> state option" where
  "OnICECandidate_Done i s =
     (if i < length (hooks s) then
        (case hooks s ! i of
           H_select c \<Rightarrow>
             (if exchErr s \<noteq> None then Some (s\<lparr>hooks := (hooks s)[i := H_Returned]\<rparr>)
              else None)
         | _ \<Rightarrow> None)
      else None)"

definition OnICECandidate_sendErr_Done :: "nat \<Rightarrow> state \<Rightarrow> state option" where
  "OnICECandidate_sendErr_Done i s =
     (if i < length (hooks s) then
        (case hooks s ! i of
           H_sendErr err \<Rightarrow>
             (if exchErr s \<noteq> None then Some (s\<lparr>hooks := (hooks s)[i := H_Returned]\<rparr>)
              else None)
         | _ \<Rightarrow> None)
      else None)"

subsection \<open>The environment, and runs\<close>

text \<open>
  The caller's context is cancelled or expires; the exchange context, derived from it,
  takes the same cause unless it is already cancelled.
\<close>

definition ctx_cancel :: "ctx_cause \<Rightarrow> state \<Rightarrow> state option" where
  "ctx_cancel c s =
     (if ctxErr s \<noteq> None then None
      else Some (s\<lparr>ctxErr := Some c,
                   exchErr := (case exchErr s of None \<Rightarrow> Some c | Some c' \<Rightarrow> Some c')\<rparr>))"

fun step :: "event \<Rightarrow> state \<Rightarrow> state option" where
  "step (CtxCancel c) s = ctx_cancel c s"
| "step DataChannelOpen s = Some (s\<lparr>chReady := True\<rparr>)"
| "step (Gather c) s = engine_gather c s"
| "step (Main e) s = dialWebRTC_step e s"
| "step (MainSelCtxDone e) s = select_ctx_Done e s"
| "step MainSelGatherComplete s = select_gatherComplete s"
| "step MainSelReady s = doCall_Ready s"
| "step (MainSelErrCh sender e) s = doCall_errCh sender e s"
| "step (Recv r) s = exchangeCandidates_Recv r s"
| "step (RecvStep e) s = exchangeCandidates_step e s"
| "step RecvSelDone s = exchangeCandidates_sendErr_Done s"
| "step (HookStep i e) s = OnICECandidate_step i e s"
| "step (HookSelRemoteDescSet i) s = OnICECandidate_remoteDescSet i s"
| "step (HookSelDone i) s = OnICECandidate_Done i s"
| "step (HookSendErrDone i) s = OnICECandidate_sendErr_Done i s"

fun run :: "event list \<Rightarrow> state \<Rightarrow> state option" where
  "run [] s = Some s"
| "run (e # es) s = (case step e s of None \<Rightarrow> None | Some s' \<Rightarrow> run es s')"

section \<open>Predicates on states and logs\<close>

text \<open>A Termination Record is a done update or an error update.\<close>

fun is_termination :: "obs \<Rightarrow> bool" where
  "is_termination (Sig_CallUpdate u Update_Done) = True"
| "is_termination (Sig_CallUpdate u (Update_Error st)) = True"
| "is_termination _ = False"

fun is_candidate_update :: "obs \<Rightarrow> bool" where
  "is_candidate_update (Sig_CallUpdate u (Update_Candidate c)) = True"
| "is_candidate_update _ = False"

fun is_set_remote :: "obs \<Rightarrow> bool" where
  "is_set_remote (PC_SetRemoteDescription sdp) = True"
| "is_set_remote _ = False"

fun is_pc_op :: "obs \<Rightarrow> bool" where
  "is_pc_op (PC_SetRemoteDescription sdp) = True"
| "is_pc_op (PC_AddICECandidate c) = True"
| "is_pc_op _ = False"

text \<open>
  On a log (most recent first): every candidate update has a successful
  \<^verbatim>\<open>SetRemoteDescription\<close> among the entries made before it.
\<close>

fun candidates_after_remote :: "obs list \<Rightarrow> bool" where
  "candidates_after_remote [] = True"
| "candidates_after_remote (x # xs) =
     ((if is_candidate_update x then list_ex is_set_remote xs else True)
      \<and> candidates_after_remote xs)"

text \<open>The session identifier of the earliest init message in a log, if there is one.\<close>

fun init_uuid :: "obs \<Rightarrow> string option" where
  "init_uuid (Sig_Recv m) =
     (case resp_Stage m of CallResponse_Init sdp \<Rightarrow> Some (resp_Uuid m) | _ \<Rightarrow> None)"
| "init_uuid _ = None"

fun assigned_uuid :: "obs list \<Rightarrow> string option" where
  "assigned_uuid [] = None"
| "assigned_uuid (x # xs) =
     (case assigned_uuid xs of Some u \<Rightarrow> Some u | None \<Rightarrow> init_uuid x)"

text \<open>
  The result \<^verbatim>\<open>dialWebRTC\<close> is bound to return: once a \<^verbatim>\<open>return\<close> statement has run,
  whether the channel is returned and the named result \<^verbatim>\<open>err\<close> as the deferred calls have
  left it; in the failure branch of lines 263-273, nil and \<^verbatim>\<open>callErr\<close>, to which the
  remaining calls add their errors.
\<close>

fun ret_pending :: "mpc \<Rightarrow> (bool \<times> go_error) option" where
  "ret_pending (M_callErr callErr) = Some (False, callErr)"
| "ret_pending (M_deferCancel ch err) = Some (ch, err)"
| "ret_pending (M_deferPCClose ch err) = Some (ch, err)"
| "ret_pending (M_deferConnClose ch err) = Some (ch, err)"
| "ret_pending (M_Returned ch err) = Some (ch, err)"
| "ret_pending _ = None"

text \<open>The errors returned to the caller's goroutine by the calls of its sequential steps.\<close>

fun main_outcome :: "event \<Rightarrow> go_error" where
  "main_outcome (Main e) = e"
| "main_outcome _ = []"

definition main_outcomes :: "event list \<Rightarrow> go_error" where
  "main_outcomes evs = concat (map main_outcome evs)"

text \<open>The statements of \<^verbatim>\<open>dialWebRTC\<close> that run only after the connection factory has succeeded.\<close>

fun after_factory :: "mpc \<Rightarrow> bool" where
  "after_factory M_CreateOffer = True"
| "after_factory M_OnICECandidate = True"
| "after_factory M_SetLocalDescription = True"
| "after_factory M_encodeSDP = True"
| "after_factory M_Call = True"
| "after_factory M_go = True"
| "after_factory M_doCall = True"
| "after_factory (M_callErr e) = True"
| "after_factory M_sendDone = True"
| "after_factory (M_deferCancel ch e) = True"
| "after_factory (M_deferPCClose ch e) = True"
| "after_factory _ = False"

fun is_H_send :: "hpc \<Rightarrow> bool" where
  "is_H_send (H_send c) = True"
| "is_H_send _ = False"

text \<open>The receiver goroutine has left its loop: it is reporting an error or has returned.\<close>

fun receiver_left :: "rpc \<Rightarrow> bool" where
  "receiver_left (R_sendErr e) = True"
| "receiver_left R_Returned = True"
| "receiver_left _ = False"

text \<open>The caller's goroutine is past the two places where it uses the one-shot guard.\<close>

fun main_past_guard :: "mpc \<Rightarrow> bool" where
  "main_past_guard (M_deferCancel ch err) = True"
| "main_past_guard (M_deferPCClose ch err) = True"
| "main_past_guard (M_deferConnClose ch err) = True"
| "main_past_guard (M_Returned ch err) = True"
| "main_past_guard _ = False"

text \<open>The receiver goroutine is handling an accepted init or update message.\<close>

fun receiver_in_message :: "rpc \<Rightarrow> bool" where
  "receiver_in_message (R_decodeSDP sdp) = True"
| "receiver_in_message (R_SetRemoteDescription sdp) = True"
| "receiver_in_message R_closeRemoteDescSet = True"
| "receiver_in_message R_sendDone = True"
| "receiver_in_message (R_AddICECandidate c) = True"
| "receiver_in_message _ = False"

text \<open>The statements of lines 136-170, which run in trickle mode only.\<close>

fun trickle_only :: "mpc \<Rightarrow> bool" where
  "trickle_only M_CreateOffer = True"
| "trickle_only M_OnICECandidate = True"
| "trickle_only M_SetLocalDescription = True"
| "trickle_only _ = False"

text \<open>The statements of \<^verbatim>\<open>dialWebRTC\<close> up to line 244, where the receiver goroutine starts.\<close>

fun before_go :: "mpc \<Rightarrow> bool" where
  "before_go M_dialDirectGRPC = True"
| "before_go M_OptionalWebRTCConfig = True"
| "before_go M_newWebRTCAPI = True"
| "before_go M_NewPeerConnection = True"
| "before_go M_CreateDataChannel = True"
| "before_go M_F_CreateOffer = True"
| "before_go M_F_SetLocalDescription = True"
| "before_go M_F_select = True"
| "before_go (M_F_deferClose e) = True"
| "before_go M_CreateOffer = True"
| "before_go M_OnICECandidate = True"
| "before_go M_SetLocalDescription = True"
| "before_go M_encodeSDP = True"
| "before_go M_Call = True"
| "before_go M_go = True"
| "before_go _ = False"

subsection \<open>Invariants of a dial attempt\<close>

definition inv_once :: "state \<Rightarrow> bool" where
  "inv_once s =
     (length (filter is_termination (log s)) \<le> 1
      \<and> (\<not> sendDoneErrorOnce s \<longrightarrow> filter is_termination (log s) = []))"

definition inv_remote :: "state \<Rightarrow> bool" where
  "inv_remote s =
     (candidates_after_remote (log s)
      \<and> (remoteDescSet s \<longrightarrow> list_ex is_set_remote (log s))
      \<and> (rpc s = R_closeRemoteDescSet \<longrightarrow> list_ex is_set_remote (log s))
      \<and> (\<forall>i < length (hooks s). is_H_send (hooks s ! i) \<longrightarrow> remoteDescSet s))"

definition inv_init :: "state \<Rightarrow> bool" where
  "inv_init s =
     ((haveInit s \<longrightarrow> assigned_uuid (log s) = Some (uuid s))
      \<and> (\<not> haveInit s \<longrightarrow> assigned_uuid (log s) = None \<and> uuid s = [])
      \<and> (remoteDescSet s \<longrightarrow> haveInit s)
      \<and> (receiver_in_message (rpc s) \<longrightarrow> haveInit s)
      \<and> (\<forall>i < length (hooks s). is_H_send (hooks s ! i) \<longrightarrow> remoteDescSet s)
      \<and> (\<not> haveInit s \<and> \<not> main_past_guard (mpc s) \<longrightarrow> \<not> sendDoneErrorOnce s))"

definition inv_vanilla :: "state \<Rightarrow> bool" where
  "inv_vanilla s =
     (disableTrickle s \<longrightarrow>
        \<not> hookInstalled s \<and> hooks s = [] \<and> \<not> trickle_only (mpc s)
        \<and> \<not> list_ex is_candidate_update (log s)
        \<and> (after_factory (mpc s) \<longrightarrow> gatherComplete s)
        \<and> (mpc s = M_Call \<longrightarrow> encodedSDP s = localCands s)
        \<and> (\<forall>sdp. Sig_Call sdp \<in> set (log s) \<longrightarrow> sdp = localCands s \<and> gatherComplete s)
        \<and> (before_go (mpc s) \<longrightarrow> rpc s = R_NotStarted \<and> \<not> sendDoneErrorOnce s)
        \<and> (sendDoneErrorOnce s \<longrightarrow> main_past_guard (mpc s) \<or> receiver_left (rpc s)))"

definition inv_start :: "state \<Rightarrow> bool" where
  "inv_start s = (before_go (mpc s) \<longrightarrow> rpc s = R_NotStarted)"

definition inv_ctx :: "state \<Rightarrow> bool" where
  "inv_ctx s = (ctxErr s \<noteq> None \<longrightarrow> exchErr s \<noteq> None)"

definition inv_mode :: "bool \<Rightarrow> state \<Rightarrow> bool" where
  "inv_mode dt s = (disableTrickle s = dt)"

text \<open>
  Once the receiver goroutine has left its loop at program counter \<open>r\<close>, with \<open>l\<close> the
  operations applied to the peer connection so far: it stays there or returns, and nothing
  more is applied.
\<close>

definition rcv_stopped :: "rpc \<Rightarrow> obs list \<Rightarrow> state \<Rightarrow> bool" where
  "rcv_stopped r l s =
     (receiver_left r \<and> \<not> before_go (mpc s) \<and> (rpc s = r \<or> rpc s = R_Returned)
      \<and> filter is_pc_op (log s) = l)"

definition exch_done :: "state \<Rightarrow> bool" where
  "exch_done s = (exchErr s \<noteq> None)"

subsection \<open>Sample runs\<close>

definition cand_a :: ICECandidateInit where
  "cand_a = \<lparr>Candidate = ''candidate:1 1 udp 1 10.0.0.1 9 typ host'', SDPMid = Some ''0'',
             SDPMLineIndex = Some 0, UsernameFragment = None\<rparr>"

definition resp_init :: CallResponse where
  "resp_init = \<lparr>resp_Uuid = ''u1'', resp_Stage = CallResponse_Init ''answer''\<rparr>"

definition resp_update :: "string \<Rightarrow> CallResponse" where
  "resp_update u =
     \<lparr>resp_Uuid = u, resp_Stage = CallResponse_Update (Some (iceCandidateInitToProto cand_a))\<rparr>"

text \<open>Trickle mode, every call succeeding, up to \<^verbatim>\<open>doCall\<close> with the receiver started.\<close>

definition setup_trickle :: "event list" where
  "setup_trickle = replicate 11 (Main [])"

text \<open>The same up to the call of \<^verbatim>\<open>signalingClient.Call\<close>.\<close>

definition setup_trickle_to_Call :: "event list" where
  "setup_trickle_to_Call = replicate 9 (Main [])"

text \<open>Vanilla mode: the factory waits for the engine to gather one candidate and complete.\<close>

definition setup_vanilla :: "event list" where
  "setup_vanilla =
     replicate 7 (Main []) @ [Gather (Some cand_a), Gather None, MainSelGatherComplete]
     @ replicate 3 (Main [])"

text \<open>The receiver takes the init message and applies the answer.\<close>

definition recv_init :: "event list" where
  "recv_init = [RecvStep [], Recv (RecvOk resp_init), RecvStep [], RecvStep [], RecvStep []]"

text \<open>
  Trickle mode: one candidate and the end of gathering are reported before the answer
  arrives; both callbacks wait, then send; the channel opens and the caller's goroutine
  calls \<^verbatim>\<open>sendDone\<close> as well and returns the channel.
\<close>

definition trace_trickle_ok :: "event list" where
  "trace_trickle_ok =
     setup_trickle
     @ [Gather (Some cand_a), HookStep 0 [], Gather None, HookStep 1 []]
     @ recv_init
     @ [HookSelRemoteDescSet 0, HookStep 0 [], HookSelRemoteDescSet 1, HookStep 1 [],
        DataChannelOpen, MainSelReady, Main [], Main [], Main []]"

text \<open>Trickle mode: a callback is waiting when the receiver is about to close the signal.\<close>

definition trace_trickle_wait :: "event list" where
  "trace_trickle_wait =
     setup_trickle
     @ [Gather (Some cand_a), HookStep 0 [], RecvStep [], Recv (RecvOk resp_init),
        RecvStep [], RecvStep []]"

text \<open>Vanilla mode: the receiver has applied the answer and is about to call \<^verbatim>\<open>sendDone\<close>.\<close>

definition trace_vanilla_init :: "event list" where
  "trace_vanilla_init = setup_vanilla @ recv_init"

text \<open>
  Vanilla mode: the receiver has applied the answer when the caller's context is cancelled;
  the caller's goroutine closes the channel and sends the error update, and only then does
  the receiver close the signal and call \<^verbatim>\<open>sendDone\<close>.
\<close>

definition trace_vanilla_race :: "event list" where
  "trace_vanilla_race =
     setup_vanilla
     @ [RecvStep [], Recv (RecvOk resp_init), RecvStep [], RecvStep [],
        CtxCancel Canceled, MainSelCtxDone [], Main [GrpcStatus 1],
        RecvStep [], RecvStep []]"

text \<open>Vanilla mode, to the end: the receiver sends done, the channel opens, the dial returns.\<close>

definition trace_vanilla_ok :: "event list" where
  "trace_vanilla_ok =
     trace_vanilla_init @ [RecvStep [], DataChannelOpen, MainSelReady, Main [], Main [], Main []]"

text \<open>
  The caller's context is cancelled while \<^verbatim>\<open>doCall\<close> waits; the \<^verbatim>\<open>select\<close> takes that
  branch, \<^verbatim>\<open>clientCh.Close()\<close> succeeds, and the function runs to its end, the update call
  of the failure branch failing with status code 1 (cancelled).
\<close>

definition trace_cancel :: "event list" where
  "trace_cancel =
     setup_trickle
     @ [CtxCancel Canceled, MainSelCtxDone [], Main [GrpcStatus 1], Main [], Main [], Main []]"

text \<open>
  The channel becomes ready with no cancellation and no reported error, and the done
  update fails with status code 14 (unavailable).
\<close>

definition trace_ready_done_fails :: "event list" where
  "trace_ready_done_fails =
     setup_trickle @ recv_init
     @ [DataChannelOpen, MainSelReady, Main [GrpcStatus 14], Main [], Main [], Main []]"

text \<open>The receiver is blocked in \<^verbatim>\<open>Recv\<close>, before and after the init message.\<close>

definition trace_recv_first :: "event list" where
  "trace_recv_first = setup_trickle @ [RecvStep []]"

definition trace_recv_second :: "event list" where
  "trace_recv_second = setup_trickle @ recv_init @ [RecvStep []]"

text \<open>\<^verbatim>\<open>Recv\<close> fails before any init message, and the error reaches \<^verbatim>\<open>doCall\<close>.\<close>

definition trace_recv_fails :: "event list" where
  "trace_recv_fails =
     setup_trickle @ [RecvStep [], Recv (RecvErr [GrpcStatus 14]), MainSelErrCh None []]"

section \<open>Properties of the candidate translator\<close>

lemma toProto_fields:
  "pb_Candidate (iceCandidateInitToProto ij) = Candidate ij"
  "pb_SdpMid (iceCandidateInitToProto ij) = SDPMid ij"
  "pb_SdpmLineIndex (iceCandidateInitToProto ij) = map_option ucast (SDPMLineIndex ij)"
  "pb_UsernameFragment (iceCandidateInitToProto ij) = UsernameFragment ij"
  by (simp_all add: iceCandidateInitToProto_def Let_def split: option.splits)

lemma fromProto_fields:
  "iceCandidateFromProto (Some w) =
     Inr \<lparr>Candidate = pb_Candidate w, SDPMid = pb_SdpMid w,
          SDPMLineIndex = map_option ucast (pb_SdpmLineIndex w),
          UsernameFragment = pb_UsernameFragment w\<rparr>"
  by (simp add: iceCandidateFromProto_def Let_def split: option.splits)

lemma ucast_16_32_16: "(ucast (ucast (v :: 16 word) :: 32 word) :: 16 word) = v"
  by (rule ucast_up_ucast_id) (simp add: is_up)

lemma unat_ucast_16_32: "unat (ucast (v :: 16 word) :: 32 word) = unat v"
proof -
  have "unat v < 2 ^ 16" using unsigned_less [of v] by simp
  then have "unat v < 2 ^ 32" by simp
  then show ?thesis by (simp add: unsigned_ucast_eq take_bit_nat_eq_self_iff)
qed

lemma unat_ucast_32_16: "unat (ucast (v :: 32 word) :: 16 word) = unat v mod 65536"
  by (simp add: unsigned_ucast_eq unsigned_take_bit_eq take_bit_eq_mod)

text \<open>
  C8 (as stated, refuted). The claim says the translator preserves all four fields exactly
  in both directions. From wire form to local form the line index is narrowed from 32 to 16
  bits: the wire candidate with line index 65536 becomes a local candidate with line index
  0, and translating that back does not give the wire candidate again.
\<close>

theorem C8_wire_line_index_counterexample:
  "iceCandidateFromProto
     (Some \<lparr>pb_Candidate = ''c'', pb_SdpMid = None,
            pb_SdpmLineIndex = Some 65536, pb_UsernameFragment = None\<rparr>)
   = Inr \<lparr>Candidate = ''c'', SDPMid = None, SDPMLineIndex = Some 0, UsernameFragment = None\<rparr>
   \<and> iceCandidateInitToProto
       \<lparr>Candidate = ''c'', SDPMid = None, SDPMLineIndex = Some 0, UsernameFragment = None\<rparr>
     \<noteq> \<lparr>pb_Candidate = ''c'', pb_SdpMid = None,
         pb_SdpmLineIndex = Some 65536, pb_UsernameFragment = None\<rparr>"
  by (simp add: iceCandidateFromProto_def iceCandidateInitToProto_def Let_def)

text \<open>
  C8 (amended). Translating a local candidate to wire form and back gives the same
  candidate, in all four fields and in the absence of the optional ones. To wire form every
  field is kept exactly (the line index with its value unchanged). From wire form the
  candidate string, the mid and the username fragment are kept exactly, an absent line
  index stays absent, and a present line index is kept modulo \<open>2 ^ 16 = 65536\<close>.
\<close>

theorem C8_translator_roundtrip:
  "iceCandidateFromProto (Some (iceCandidateInitToProto ij)) = Inr ij
   \<and> pb_Candidate (iceCandidateInitToProto ij) = Candidate ij
   \<and> pb_SdpMid (iceCandidateInitToProto ij) = SDPMid ij
   \<and> map_option unat (pb_SdpmLineIndex (iceCandidateInitToProto ij))
       = map_option unat (SDPMLineIndex ij)
   \<and> pb_UsernameFragment (iceCandidateInitToProto ij) = UsernameFragment ij
   \<and> iceCandidateFromProto (Some w)
       = Inr \<lparr>Candidate = pb_Candidate w, SDPMid = pb_SdpMid w,
              SDPMLineIndex = map_option ucast (pb_SdpmLineIndex w),
              UsernameFragment = pb_UsernameFragment w\<rparr>
   \<and> map_option unat (map_option (ucast :: 32 word \<Rightarrow> 16 word) (pb_SdpmLineIndex w))
       = map_option (\<lambda>v. unat v mod 65536) (pb_SdpmLineIndex w)"
proof -
  have rt: "iceCandidateFromProto (Some (iceCandidateInitToProto ij)) = Inr ij"
    by (simp add: fromProto_fields toProto_fields option.map_comp comp_def ucast_16_32_16
        option.map_ident)
  have li: "map_option unat (pb_SdpmLineIndex (iceCandidateInitToProto ij))
              = map_option unat (SDPMLineIndex ij)"
    by (simp add: toProto_fields option.map_comp comp_def unat_ucast_16_32)
  have na: "map_option unat (map_option (ucast :: 32 word \<Rightarrow> 16 word) (pb_SdpmLineIndex w))
              = map_option (\<lambda>v. unat v mod 65536) (pb_SdpmLineIndex w)"
    by (simp add: option.map_comp comp_def unat_ucast_32_16)
  show ?thesis
    using rt li na by (simp add: toProto_fields fromProto_fields)
qed

section \<open>Runs and invariants\<close>

text \<open>
  A property kept by every step holds along every run. A step preserves a property if
  each thread function and each move of the environment does; the preservation lemmas are
  stated for the optional result of each function.
\<close>

lemma run_invariant:
  assumes "\<And>e s s'. P s \<Longrightarrow> step e s = Some s' \<Longrightarrow> P s'"
  shows "P s \<Longrightarrow> run evs s = Some s' \<Longrightarrow> P s'"
proof (induction evs arbitrary: s)
  case Nil then show ?case by simp
next
  case (Cons e es)
  then show ?case using assms by (auto split: option.splits)
qed

lemma step_preserves:
  assumes st: "step e s = Some s'"
    and a1: "\<And>c. case ctx_cancel c s of None \<Rightarrow> True | Some t \<Rightarrow> P t"
    and a2: "P (s\<lparr>chReady := True\<rparr>)"
    and a3: "\<And>c. case engine_gather c s of None \<Rightarrow> True | Some t \<Rightarrow> P t"
    and a4: "\<And>x. case dialWebRTC_step x s of None \<Rightarrow> True | Some t \<Rightarrow> P t"
    and a5: "\<And>x. case select_ctx_Done x s of None \<Rightarrow> True | Some t \<Rightarrow> P t"
    and a6: "case select_gatherComplete s of None \<Rightarrow> True | Some t \<Rightarrow> P t"
    and a7: "case doCall_Ready s of None \<Rightarrow> True | Some t \<Rightarrow> P t"
    and a8: "\<And>sd x. case doCall_errCh sd x s of None \<Rightarrow> True | Some t \<Rightarrow> P t"
    and a9: "\<And>r. case exchangeCandidates_Recv r s of None \<Rightarrow> True | Some t \<Rightarrow> P t"
    and a10: "\<And>x. case exchangeCandidates_step x s of None \<Rightarrow> True | Some t \<Rightarrow> P t"
    and a11: "case exchangeCandidates_sendErr_Done s of None \<Rightarrow> True | Some t \<Rightarrow> P t"
    and a12: "\<And>i x. case OnICECandidate_step i x s of None \<Rightarrow> True | Some t \<Rightarrow> P t"
    and a13: "\<And>i. case OnICECandidate_remoteDescSet i s of None \<Rightarrow> True | Some t \<Rightarrow> P t"
    and a14: "\<And>i. case OnICECandidate_Done i s of None \<Rightarrow> True | Some t \<Rightarrow> P t"
    and a15: "\<And>i. case OnICECandidate_sendErr_Done i s of None \<Rightarrow> True | Some t \<Rightarrow> P t"
  shows "P s'"
proof (cases e)
  case (CtxCancel c) then show ?thesis using st a1 [of c] by simp
next
  case DataChannelOpen then show ?thesis using st a2 by auto
next
  case (Gather c) then show ?thesis using st a3 [of c] by simp
next
  case (Main x) then show ?thesis using st a4 [of x] by simp
next
  case (MainSelCtxDone x) then show ?thesis using st a5 [of x] by simp
next
  case MainSelGatherComplete then show ?thesis using st a6 by simp
next
  case MainSelReady then show ?thesis using st a7 by simp
next
  case (MainSelErrCh sd x) then show ?thesis using st a8 [of sd x] by simp
next
  case (Recv r) then show ?thesis using st a9 [of r] by simp
next
  case (RecvStep x) then show ?thesis using st a10 [of x] by simp
next
  case RecvSelDone then show ?thesis using st a11 by simp
next
  case (HookStep i x) then show ?thesis using st a12 [of i x] by simp
next
  case (HookSelRemoteDescSet i) then show ?thesis using st a13 [of i] by simp
next
  case (HookSelDone i) then show ?thesis using st a14 [of i] by simp
next
  case (HookSendErrDone i) then show ?thesis using st a15 [of i] by simp
qed

lemmas hsimps = nth_list_update nth_append

subsection \<open>Preservation of the invariants\<close>

text \<open>
  The one-shot guard: at most one Termination Record, and none while the guard has not
  run.
\<close>

lemma once_dial:
  "inv_once s \<Longrightarrow>
     (case dialWebRTC_step x s of
      None \<Rightarrow> True | Some t \<Rightarrow> inv_once t)"
  by (auto simp add: inv_once_def dialWebRTC_step_def newPeerConnectionForClient_step_def
        sendDone_def exchangeCancel_def nocall_def Combine_def Let_def
        split: mpc.split option.split)

lemma once_recv:
  "inv_once s \<Longrightarrow>
     (case exchangeCandidates_Recv m s of
      None \<Rightarrow> True | Some t \<Rightarrow> inv_once t)"
  by (auto simp add: inv_once_def exchangeCandidates_Recv_def Let_def
        split: recv_result.split stage.split sum.split)

lemma once_receiver:
  "inv_once s \<Longrightarrow>
     (case exchangeCandidates_step x s of
      None \<Rightarrow> True | Some t \<Rightarrow> inv_once t)"
  by (auto simp add: inv_once_def exchangeCandidates_step_def sendDone_def nocall_def
        Let_def
        split: rpc.split option.split)

lemma once_callback:
  "inv_once s \<Longrightarrow>
     (case OnICECandidate_step i x s of
      None \<Rightarrow> True | Some t \<Rightarrow> inv_once t)"
  by (auto simp add: inv_once_def OnICECandidate_step_def sendDone_def nocall_def Let_def
        hsimps
        split: hpc.split option.split)

lemma once_select:
  "inv_once s \<Longrightarrow>
     (case doCall_errCh sd x s of
      None \<Rightarrow> True | Some t \<Rightarrow> inv_once t)"
  "inv_once s \<Longrightarrow>
     (case select_ctx_Done x s of
      None \<Rightarrow> True | Some t \<Rightarrow> inv_once t)"
  "inv_once s \<Longrightarrow>
     (case select_gatherComplete s of
      None \<Rightarrow> True | Some t \<Rightarrow> inv_once t)"
  "inv_once s \<Longrightarrow>
     (case doCall_Ready s of
      None \<Rightarrow> True | Some t \<Rightarrow> inv_once t)"
  "inv_once s \<Longrightarrow>
     (case exchangeCandidates_sendErr_Done s of
      None \<Rightarrow> True | Some t \<Rightarrow> inv_once t)"
  by (auto simp add: inv_once_def doCall_errCh_def select_ctx_Done_def
        select_gatherComplete_def doCall_Ready_def exchangeCandidates_sendErr_Done_def
        nocall_def Combine_def hsimps
        split: hpc.split rpc.split mpc.split option.split)+

lemma once_env:
  "inv_once s \<Longrightarrow>
     (case engine_gather g s of
      None \<Rightarrow> True | Some t \<Rightarrow> inv_once t)"
  "inv_once s \<Longrightarrow>
     (case OnICECandidate_remoteDescSet i s of
      None \<Rightarrow> True | Some t \<Rightarrow> inv_once t)"
  "inv_once s \<Longrightarrow>
     (case OnICECandidate_Done i s of
      None \<Rightarrow> True | Some t \<Rightarrow> inv_once t)"
  "inv_once s \<Longrightarrow>
     (case OnICECandidate_sendErr_Done i s of
      None \<Rightarrow> True | Some t \<Rightarrow> inv_once t)"
  "inv_once s \<Longrightarrow>
     (case ctx_cancel cc s of
      None \<Rightarrow> True | Some t \<Rightarrow> inv_once t)"
  "inv_once (s\<lparr>chReady := True\<rparr>) = inv_once s"
  by (auto simp add: inv_once_def engine_gather_def OnICECandidate_remoteDescSet_def
        OnICECandidate_Done_def OnICECandidate_sendErr_Done_def ctx_cancel_def Let_def
        hsimps
        split: hpc.split option.split)+

lemma once_step:
  assumes "inv_once s" and "step e s = Some s'"
  shows "inv_once s'"
  using assms(2)
  by (rule step_preserves)
     (use assms(1) in \<open>simp_all add: once_dial once_recv once_receiver
        once_callback once_select once_env\<close>)

lemma once_init: "inv_once (init dt)"
  by (simp add: inv_once_def init_def)

lemma once_run: "run evs (init dt) = Some s \<Longrightarrow> inv_once s"
  by (rule run_invariant [where P = "inv_once", OF once_step once_init])

text \<open>
  Candidate updates come after the remote description; the signal is closed, and a
  callback is past its select, only after it.
\<close>

lemma remote_dial:
  "inv_remote s \<Longrightarrow>
     (case dialWebRTC_step x s of
      None \<Rightarrow> True | Some t \<Rightarrow> inv_remote t)"
  by (auto simp add: inv_remote_def dialWebRTC_step_def
        newPeerConnectionForClient_step_def sendDone_def exchangeCancel_def nocall_def
        Combine_def Let_def
        split: mpc.split option.split)

lemma remote_recv:
  "inv_remote s \<Longrightarrow>
     (case exchangeCandidates_Recv m s of
      None \<Rightarrow> True | Some t \<Rightarrow> inv_remote t)"
  by (auto simp add: inv_remote_def exchangeCandidates_Recv_def Let_def
        split: recv_result.split stage.split sum.split)

lemma remote_receiver:
  "inv_remote s \<Longrightarrow>
     (case exchangeCandidates_step x s of
      None \<Rightarrow> True | Some t \<Rightarrow> inv_remote t)"
  by (auto simp add: inv_remote_def exchangeCandidates_step_def sendDone_def nocall_def
        Let_def
        split: rpc.split option.split)

lemma remote_callback:
  "inv_remote s \<Longrightarrow>
     (case OnICECandidate_step i x s of
      None \<Rightarrow> True | Some t \<Rightarrow> inv_remote t)"
  by (auto simp add: inv_remote_def OnICECandidate_step_def sendDone_def nocall_def
        Let_def hsimps
        split: hpc.split option.split)

lemma remote_select:
  "inv_remote s \<Longrightarrow>
     (case doCall_errCh sd x s of
      None \<Rightarrow> True | Some t \<Rightarrow> inv_remote t)"
  "inv_remote s \<Longrightarrow>
     (case select_ctx_Done x s of
      None \<Rightarrow> True | Some t \<Rightarrow> inv_remote t)"
  "inv_remote s \<Longrightarrow>
     (case select_gatherComplete s of
      None \<Rightarrow> True | Some t \<Rightarrow> inv_remote t)"
  "inv_remote s \<Longrightarrow>
     (case doCall_Ready s of
      None \<Rightarrow> True | Some t \<Rightarrow> inv_remote t)"
  "inv_remote s \<Longrightarrow>
     (case exchangeCandidates_sendErr_Done s of
      None \<Rightarrow> True | Some t \<Rightarrow> inv_remote t)"
  by (auto simp add: inv_remote_def doCall_errCh_def select_ctx_Done_def
        select_gatherComplete_def doCall_Ready_def exchangeCandidates_sendErr_Done_def
        nocall_def Combine_def hsimps
        split: hpc.split rpc.split mpc.split option.split)+

lemma remote_env:
  "inv_remote s \<Longrightarrow>
     (case engine_gather g s of
      None \<Rightarrow> True | Some t \<Rightarrow> inv_remote t)"
  "inv_remote s \<Longrightarrow>
     (case OnICECandidate_remoteDescSet i s of
      None \<Rightarrow> True | Some t \<Rightarrow> inv_remote t)"
  "inv_remote s \<Longrightarrow>
     (case OnICECandidate_Done i s of
      None \<Rightarrow> True | Some t \<Rightarrow> inv_remote t)"
  "inv_remote s \<Longrightarrow>
     (case OnICECandidate_sendErr_Done i s of
      None \<Rightarrow> True | Some t \<Rightarrow> inv_remote t)"
  "inv_remote s \<Longrightarrow>
     (case ctx_cancel cc s of
      None \<Rightarrow> True | Some t \<Rightarrow> inv_remote t)"
  "inv_remote (s\<lparr>chReady := True\<rparr>) = inv_remote s"
  by (auto simp add: inv_remote_def engine_gather_def OnICECandidate_remoteDescSet_def
        OnICECandidate_Done_def OnICECandidate_sendErr_Done_def ctx_cancel_def Let_def
        hsimps
        split: hpc.split option.split)+

lemma remote_step:
  assumes "inv_remote s" and "step e s = Some s'"
  shows "inv_remote s'"
  using assms(2)
  by (rule step_preserves)
     (use assms(1) in \<open>simp_all add: remote_dial remote_recv remote_receiver
        remote_callback remote_select remote_env\<close>)

lemma remote_init: "inv_remote (init dt)"
  by (simp add: inv_remote_def init_def)

lemma remote_run: "run evs (init dt) = Some s \<Longrightarrow> inv_remote s"
  by (rule run_invariant [where P = "inv_remote", OF remote_step remote_init])

text \<open>
  The session identifier is the one of the earliest init message; before an init message
  nothing has used the one-shot guard except the caller's goroutine itself.
\<close>

lemma init_dial:
  "inv_init s \<Longrightarrow>
     (case dialWebRTC_step x s of
      None \<Rightarrow> True | Some t \<Rightarrow> inv_init t)"
  by (auto simp add: inv_init_def dialWebRTC_step_def newPeerConnectionForClient_step_def
        sendDone_def exchangeCancel_def nocall_def Combine_def Let_def
        split: mpc.split option.split)

lemma init_recv:
  "inv_init s \<Longrightarrow>
     (case exchangeCandidates_Recv m s of
      None \<Rightarrow> True | Some t \<Rightarrow> inv_init t)"
  by (auto simp add: inv_init_def exchangeCandidates_Recv_def Let_def
        split: recv_result.split stage.split sum.split)

lemma init_receiver:
  "inv_init s \<Longrightarrow>
     (case exchangeCandidates_step x s of
      None \<Rightarrow> True | Some t \<Rightarrow> inv_init t)"
  by (auto simp add: inv_init_def exchangeCandidates_step_def sendDone_def nocall_def
        Let_def
        split: rpc.split option.split)

lemma init_callback:
  "inv_init s \<Longrightarrow>
     (case OnICECandidate_step i x s of
      None \<Rightarrow> True | Some t \<Rightarrow> inv_init t)"
  by (auto simp add: inv_init_def OnICECandidate_step_def sendDone_def nocall_def Let_def
        hsimps
        split: hpc.split option.split)

lemma init_select:
  "inv_init s \<Longrightarrow>
     (case doCall_errCh sd x s of
      None \<Rightarrow> True | Some t \<Rightarrow> inv_init t)"
  "inv_init s \<Longrightarrow>
     (case select_ctx_Done x s of
      None \<Rightarrow> True | Some t \<Rightarrow> inv_init t)"
  "inv_init s \<Longrightarrow>
     (case select_gatherComplete s of
      None \<Rightarrow> True | Some t \<Rightarrow> inv_init t)"
  "inv_init s \<Longrightarrow>
     (case doCall_Ready s of
      None \<Rightarrow> True | Some t \<Rightarrow> inv_init t)"
  "inv_init s \<Longrightarrow>
     (case exchangeCandidates_sendErr_Done s of
      None \<Rightarrow> True | Some t \<Rightarrow> inv_init t)"
  by (auto simp add: inv_init_def doCall_errCh_def select_ctx_Done_def
        select_gatherComplete_def doCall_Ready_def exchangeCandidates_sendErr_Done_def
        nocall_def Combine_def hsimps
        split: hpc.split rpc.split mpc.split option.split)+

lemma init_env:
  "inv_init s \<Longrightarrow>
     (case engine_gather g s of
      None \<Rightarrow> True | Some t \<Rightarrow> inv_init t)"
  "inv_init s \<Longrightarrow>
     (case OnICECandidate_remoteDescSet i s of
      None \<Rightarrow> True | Some t \<Rightarrow> inv_init t)"
  "inv_init s \<Longrightarrow>
     (case OnICECandidate_Done i s of
      None \<Rightarrow> True | Some t \<Rightarrow> inv_init t)"
  "inv_init s \<Longrightarrow>
     (case OnICECandidate_sendErr_Done i s of
      None \<Rightarrow> True | Some t \<Rightarrow> inv_init t)"
  "inv_init s \<Longrightarrow>
     (case ctx_cancel cc s of
      None \<Rightarrow> True | Some t \<Rightarrow> inv_init t)"
  "inv_init (s\<lparr>chReady := True\<rparr>) = inv_init s"
  by (auto simp add: inv_init_def engine_gather_def OnICECandidate_remoteDescSet_def
        OnICECandidate_Done_def OnICECandidate_sendErr_Done_def ctx_cancel_def Let_def
        hsimps
        split: hpc.split option.split)+

lemma init_step:
  assumes "inv_init s" and "step e s = Some s'"
  shows "inv_init s'"
  using assms(2)
  by (rule step_preserves)
     (use assms(1) in \<open>simp_all add: init_dial init_recv init_receiver
        init_callback init_select init_env\<close>)

lemma init_init: "inv_init (init dt)"
  by (simp add: inv_init_def init_def)

lemma init_run: "run evs (init dt) = Some s \<Longrightarrow> inv_init s"
  by (rule run_invariant [where P = "inv_init", OF init_step init_init])

text \<open>
  Vanilla mode: no callback, no candidate update, gathering complete once the factory has
  returned.
\<close>

lemma vanilla_dial:
  "inv_vanilla s \<Longrightarrow>
     (case dialWebRTC_step x s of
      None \<Rightarrow> True | Some t \<Rightarrow> inv_vanilla t)"
  by (auto simp add: inv_vanilla_def dialWebRTC_step_def
        newPeerConnectionForClient_step_def sendDone_def exchangeCancel_def nocall_def
        Combine_def Let_def
        split: mpc.split option.split)

lemma vanilla_recv:
  "inv_vanilla s \<Longrightarrow>
     (case exchangeCandidates_Recv m s of
      None \<Rightarrow> True | Some t \<Rightarrow> inv_vanilla t)"
  by (auto simp add: inv_vanilla_def exchangeCandidates_Recv_def Let_def
        split: recv_result.split stage.split sum.split)

lemma vanilla_receiver:
  "inv_vanilla s \<Longrightarrow>
     (case exchangeCandidates_step x s of
      None \<Rightarrow> True | Some t \<Rightarrow> inv_vanilla t)"
  by (auto simp add: inv_vanilla_def exchangeCandidates_step_def sendDone_def nocall_def
        Let_def
        split: rpc.split option.split)

lemma vanilla_callback:
  "inv_vanilla s \<Longrightarrow>
     (case OnICECandidate_step i x s of
      None \<Rightarrow> True | Some t \<Rightarrow> inv_vanilla t)"
  by (auto simp add: inv_vanilla_def OnICECandidate_step_def sendDone_def nocall_def
        Let_def hsimps
        split: hpc.split option.split)

lemma vanilla_select:
  "inv_vanilla s \<Longrightarrow>
     (case doCall_errCh sd x s of
      None \<Rightarrow> True | Some t \<Rightarrow> inv_vanilla t)"
  "inv_vanilla s \<Longrightarrow>
     (case select_ctx_Done x s of
      None \<Rightarrow> True | Some t \<Rightarrow> inv_vanilla t)"
  "inv_vanilla s \<Longrightarrow>
     (case select_gatherComplete s of
      None \<Rightarrow> True | Some t \<Rightarrow> inv_vanilla t)"
  "inv_vanilla s \<Longrightarrow>
     (case doCall_Ready s of
      None \<Rightarrow> True | Some t \<Rightarrow> inv_vanilla t)"
  "inv_vanilla s \<Longrightarrow>
     (case exchangeCandidates_sendErr_Done s of
      None \<Rightarrow> True | Some t \<Rightarrow> inv_vanilla t)"
  by (auto simp add: inv_vanilla_def doCall_errCh_def select_ctx_Done_def
        select_gatherComplete_def doCall_Ready_def exchangeCandidates_sendErr_Done_def
        nocall_def Combine_def hsimps
        split: hpc.split rpc.split mpc.split option.split)+

lemma vanilla_env:
  "inv_vanilla s \<Longrightarrow>
     (case engine_gather g s of
      None \<Rightarrow> True | Some t \<Rightarrow> inv_vanilla t)"
  "inv_vanilla s \<Longrightarrow>
     (case OnICECandidate_remoteDescSet i s of
      None \<Rightarrow> True | Some t \<Rightarrow> inv_vanilla t)"
  "inv_vanilla s \<Longrightarrow>
     (case OnICECandidate_Done i s of
      None \<Rightarrow> True | Some t \<Rightarrow> inv_vanilla t)"
  "inv_vanilla s \<Longrightarrow>
     (case OnICECandidate_sendErr_Done i s of
      None \<Rightarrow> True | Some t \<Rightarrow> inv_vanilla t)"
  "inv_vanilla s \<Longrightarrow>
     (case ctx_cancel cc s of
      None \<Rightarrow> True | Some t \<Rightarrow> inv_vanilla t)"
  "inv_vanilla (s\<lparr>chReady := True\<rparr>) = inv_vanilla s"
  by (auto simp add: inv_vanilla_def engine_gather_def OnICECandidate_remoteDescSet_def
        OnICECandidate_Done_def OnICECandidate_sendErr_Done_def ctx_cancel_def Let_def
        hsimps
        split: hpc.split option.split)+

lemma vanilla_step:
  assumes "inv_vanilla s" and "step e s = Some s'"
  shows "inv_vanilla s'"
  using assms(2)
  by (rule step_preserves)
     (use assms(1) in \<open>simp_all add: vanilla_dial vanilla_recv vanilla_receiver
        vanilla_callback vanilla_select vanilla_env\<close>)

lemma vanilla_init: "inv_vanilla (init dt)"
  by (simp add: inv_vanilla_def init_def)

lemma vanilla_run: "run evs (init dt) = Some s \<Longrightarrow> inv_vanilla s"
  by (rule run_invariant [where P = "inv_vanilla", OF vanilla_step vanilla_init])

text \<open>
  The receiver goroutine does not run before line 244.
\<close>

lemma start_dial:
  "inv_start s \<Longrightarrow>
     (case dialWebRTC_step x s of
      None \<Rightarrow> True | Some t \<Rightarrow> inv_start t)"
  by (auto simp add: inv_start_def dialWebRTC_step_def newPeerConnectionForClient_step_def
        sendDone_def exchangeCancel_def nocall_def Combine_def Let_def
        split: mpc.split option.split)

lemma start_recv:
  "inv_start s \<Longrightarrow>
     (case exchangeCandidates_Recv m s of
      None \<Rightarrow> True | Some t \<Rightarrow> inv_start t)"
  by (auto simp add: inv_start_def exchangeCandidates_Recv_def Let_def
        split: recv_result.split stage.split sum.split)

lemma start_receiver:
  "inv_start s \<Longrightarrow>
     (case exchangeCandidates_step x s of
      None \<Rightarrow> True | Some t \<Rightarrow> inv_start t)"
  by (auto simp add: inv_start_def exchangeCandidates_step_def sendDone_def nocall_def
        Let_def
        split: rpc.split option.split)

lemma start_callback:
  "inv_start s \<Longrightarrow>
     (case OnICECandidate_step i x s of
      None \<Rightarrow> True | Some t \<Rightarrow> inv_start t)"
  by (auto simp add: inv_start_def OnICECandidate_step_def sendDone_def nocall_def Let_def
        hsimps
        split: hpc.split option.split)

lemma start_select:
  "inv_start s \<Longrightarrow>
     (case doCall_errCh sd x s of
      None \<Rightarrow> True | Some t \<Rightarrow> inv_start t)"
  "inv_start s \<Longrightarrow>
     (case select_ctx_Done x s of
      None \<Rightarrow> True | Some t \<Rightarrow> inv_start t)"
  "inv_start s \<Longrightarrow>
     (case select_gatherComplete s of
      None \<Rightarrow> True | Some t \<Rightarrow> inv_start t)"
  "inv_start s \<Longrightarrow>
     (case doCall_Ready s of
      None \<Rightarrow> True | Some t \<Rightarrow> inv_start t)"
  "inv_start s \<Longrightarrow>
     (case exchangeCandidates_sendErr_Done s of
      None \<Rightarrow> True | Some t \<Rightarrow> inv_start t)"
  by (auto simp add: inv_start_def doCall_errCh_def select_ctx_Done_def
        select_gatherComplete_def doCall_Ready_def exchangeCandidates_sendErr_Done_def
        nocall_def Combine_def hsimps
        split: hpc.split rpc.split mpc.split option.split)+

lemma start_env:
  "inv_start s \<Longrightarrow>
     (case engine_gather g s of
      None \<Rightarrow> True | Some t \<Rightarrow> inv_start t)"
  "inv_start s \<Longrightarrow>
     (case OnICECandidate_remoteDescSet i s of
      None \<Rightarrow> True | Some t \<Rightarrow> inv_start t)"
  "inv_start s \<Longrightarrow>
     (case OnICECandidate_Done i s of
      None \<Rightarrow> True | Some t \<Rightarrow> inv_start t)"
  "inv_start s \<Longrightarrow>
     (case OnICECandidate_sendErr_Done i s of
      None \<Rightarrow> True | Some t \<Rightarrow> inv_start t)"
  "inv_start s \<Longrightarrow>
     (case ctx_cancel cc s of
      None \<Rightarrow> True | Some t \<Rightarrow> inv_start t)"
  "inv_start (s\<lparr>chReady := True\<rparr>) = inv_start s"
  by (auto simp add: inv_start_def engine_gather_def OnICECandidate_remoteDescSet_def
        OnICECandidate_Done_def OnICECandidate_sendErr_Done_def ctx_cancel_def Let_def
        hsimps
        split: hpc.split option.split)+

lemma start_step:
  assumes "inv_start s" and "step e s = Some s'"
  shows "inv_start s'"
  using assms(2)
  by (rule step_preserves)
     (use assms(1) in \<open>simp_all add: start_dial start_recv start_receiver
        start_callback start_select start_env\<close>)

lemma start_init: "inv_start (init dt)"
  by (simp add: inv_start_def init_def)

lemma start_run: "run evs (init dt) = Some s \<Longrightarrow> inv_start s"
  by (rule run_invariant [where P = "inv_start", OF start_step start_init])

text \<open>
  The exchange context is done whenever the caller's context is.
\<close>

lemma ctx_dial:
  "inv_ctx s \<Longrightarrow>
     (case dialWebRTC_step x s of
      None \<Rightarrow> True | Some t \<Rightarrow> inv_ctx t)"
  by (auto simp add: inv_ctx_def dialWebRTC_step_def newPeerConnectionForClient_step_def
        sendDone_def exchangeCancel_def nocall_def Combine_def Let_def
        split: mpc.split option.split)

lemma ctx_recv:
  "inv_ctx s \<Longrightarrow>
     (case exchangeCandidates_Recv m s of
      None \<Rightarrow> True | Some t \<Rightarrow> inv_ctx t)"
  by (auto simp add: inv_ctx_def exchangeCandidates_Recv_def Let_def
        split: recv_result.split stage.split sum.split)

lemma ctx_receiver:
  "inv_ctx s \<Longrightarrow>
     (case exchangeCandidates_step x s of
      None \<Rightarrow> True | Some t \<Rightarrow> inv_ctx t)"
  by (auto simp add: inv_ctx_def exchangeCandidates_step_def sendDone_def nocall_def
        Let_def
        split: rpc.split option.split)

lemma ctx_callback:
  "inv_ctx s \<Longrightarrow>
     (case OnICECandidate_step i x s of
      None \<Rightarrow> True | Some t \<Rightarrow> inv_ctx t)"
  by (auto simp add: inv_ctx_def OnICECandidate_step_def sendDone_def nocall_def Let_def
        hsimps
        split: hpc.split option.split)

lemma ctx_select:
  "inv_ctx s \<Longrightarrow>
     (case doCall_errCh sd x s of
      None \<Rightarrow> True | Some t \<Rightarrow> inv_ctx t)"
  "inv_ctx s \<Longrightarrow>
     (case select_ctx_Done x s of
      None \<Rightarrow> True | Some t \<Rightarrow> inv_ctx t)"
  "inv_ctx s \<Longrightarrow>
     (case select_gatherComplete s of
      None \<Rightarrow> True | Some t \<Rightarrow> inv_ctx t)"
  "inv_ctx s \<Longrightarrow>
     (case doCall_Ready s of
      None \<Rightarrow> True | Some t \<Rightarrow> inv_ctx t)"
  "inv_ctx s \<Longrightarrow>
     (case exchangeCandidates_sendErr_Done s of
      None \<Rightarrow> True | Some t \<Rightarrow> inv_ctx t)"
  by (auto simp add: inv_ctx_def doCall_errCh_def select_ctx_Done_def
        select_gatherComplete_def doCall_Ready_def exchangeCandidates_sendErr_Done_def
        nocall_def Combine_def hsimps
        split: hpc.split rpc.split mpc.split option.split)+

lemma ctx_env:
  "inv_ctx s \<Longrightarrow>
     (case engine_gather g s of
      None \<Rightarrow> True | Some t \<Rightarrow> inv_ctx t)"
  "inv_ctx s \<Longrightarrow>
     (case OnICECandidate_remoteDescSet i s of
      None \<Rightarrow> True | Some t \<Rightarrow> inv_ctx t)"
  "inv_ctx s \<Longrightarrow>
     (case OnICECandidate_Done i s of
      None \<Rightarrow> True | Some t \<Rightarrow> inv_ctx t)"
  "inv_ctx s \<Longrightarrow>
     (case OnICECandidate_sendErr_Done i s of
      None \<Rightarrow> True | Some t \<Rightarrow> inv_ctx t)"
  "inv_ctx s \<Longrightarrow>
     (case ctx_cancel cc s of
      None \<Rightarrow> True | Some t \<Rightarrow> inv_ctx t)"
  "inv_ctx (s\<lparr>chReady := True\<rparr>) = inv_ctx s"
  by (auto simp add: inv_ctx_def engine_gather_def OnICECandidate_remoteDescSet_def
        OnICECandidate_Done_def OnICECandidate_sendErr_Done_def ctx_cancel_def Let_def
        hsimps
        split: hpc.split option.split)+

lemma ctx_step:
  assumes "inv_ctx s" and "step e s = Some s'"
  shows "inv_ctx s'"
  using assms(2)
  by (rule step_preserves)
     (use assms(1) in \<open>simp_all add: ctx_dial ctx_recv ctx_receiver
        ctx_callback ctx_select ctx_env\<close>)

lemma ctx_init: "inv_ctx (init dt)"
  by (simp add: inv_ctx_def init_def)

lemma ctx_run: "run evs (init dt) = Some s \<Longrightarrow> inv_ctx s"
  by (rule run_invariant [where P = "inv_ctx", OF ctx_step ctx_init])

text \<open>
  The mode does not change during a dial attempt.
\<close>

lemma mode_dial:
  "inv_mode dt s \<Longrightarrow>
     (case dialWebRTC_step x s of
      None \<Rightarrow> True | Some t \<Rightarrow> inv_mode dt t)"
  by (auto simp add: inv_mode_def dialWebRTC_step_def newPeerConnectionForClient_step_def
        sendDone_def exchangeCancel_def nocall_def Combine_def Let_def
        split: mpc.split option.split)

lemma mode_recv:
  "inv_mode dt s \<Longrightarrow>
     (case exchangeCandidates_Recv m s of
      None \<Rightarrow> True | Some t \<Rightarrow> inv_mode dt t)"
  by (auto simp add: inv_mode_def exchangeCandidates_Recv_def Let_def
        split: recv_result.split stage.split sum.split)

lemma mode_receiver:
  "inv_mode dt s \<Longrightarrow>
     (case exchangeCandidates_step x s of
      None \<Rightarrow> True | Some t \<Rightarrow> inv_mode dt t)"
  by (auto simp add: inv_mode_def exchangeCandidates_step_def sendDone_def nocall_def
        Let_def
        split: rpc.split option.split)

lemma mode_callback:
  "inv_mode dt s \<Longrightarrow>
     (case OnICECandidate_step i x s of
      None \<Rightarrow> True | Some t \<Rightarrow> inv_mode dt t)"
  by (auto simp add: inv_mode_def OnICECandidate_step_def sendDone_def nocall_def Let_def
        hsimps
        split: hpc.split option.split)

lemma mode_select:
  "inv_mode dt s \<Longrightarrow>
     (case doCall_errCh sd x s of
      None \<Rightarrow> True | Some t \<Rightarrow> inv_mode dt t)"
  "inv_mode dt s \<Longrightarrow>
     (case select_ctx_Done x s of
      None \<Rightarrow> True | Some t \<Rightarrow> inv_mode dt t)"
  "inv_mode dt s \<Longrightarrow>
     (case select_gatherComplete s of
      None \<Rightarrow> True | Some t \<Rightarrow> inv_mode dt t)"
  "inv_mode dt s \<Longrightarrow>
     (case doCall_Ready s of
      None \<Rightarrow> True | Some t \<Rightarrow> inv_mode dt t)"
  "inv_mode dt s \<Longrightarrow>
     (case exchangeCandidates_sendErr_Done s of
      None \<Rightarrow> True | Some t \<Rightarrow> inv_mode dt t)"
  by (auto simp add: inv_mode_def doCall_errCh_def select_ctx_Done_def
        select_gatherComplete_def doCall_Ready_def exchangeCandidates_sendErr_Done_def
        nocall_def Combine_def hsimps
        split: hpc.split rpc.split mpc.split option.split)+

lemma mode_env:
  "inv_mode dt s \<Longrightarrow>
     (case engine_gather g s of
      None \<Rightarrow> True | Some t \<Rightarrow> inv_mode dt t)"
  "inv_mode dt s \<Longrightarrow>
     (case OnICECandidate_remoteDescSet i s of
      None \<Rightarrow> True | Some t \<Rightarrow> inv_mode dt t)"
  "inv_mode dt s \<Longrightarrow>
     (case OnICECandidate_Done i s of
      None \<Rightarrow> True | Some t \<Rightarrow> inv_mode dt t)"
  "inv_mode dt s \<Longrightarrow>
     (case OnICECandidate_sendErr_Done i s of
      None \<Rightarrow> True | Some t \<Rightarrow> inv_mode dt t)"
  "inv_mode dt s \<Longrightarrow>
     (case ctx_cancel cc s of
      None \<Rightarrow> True | Some t \<Rightarrow> inv_mode dt t)"
  "inv_mode dt (s\<lparr>chReady := True\<rparr>) = inv_mode dt s"
  by (auto simp add: inv_mode_def engine_gather_def OnICECandidate_remoteDescSet_def
        OnICECandidate_Done_def OnICECandidate_sendErr_Done_def ctx_cancel_def Let_def
        hsimps
        split: hpc.split option.split)+

lemma mode_step:
  assumes "inv_mode dt s" and "step e s = Some s'"
  shows "inv_mode dt s'"
  using assms(2)
  by (rule step_preserves)
     (use assms(1) in \<open>simp_all add: mode_dial mode_recv mode_receiver
        mode_callback mode_select mode_env\<close>)

lemma mode_init: "inv_mode dt (init dt)"
  by (simp add: inv_mode_def init_def)

lemma mode_run: "run evs (init dt) = Some s \<Longrightarrow> inv_mode dt s"
  by (rule run_invariant [where P = "inv_mode dt", OF mode_step mode_init])

text \<open>
  Once the receiver goroutine has left its loop it applies nothing to the peer connection.
\<close>

lemma stopped_dial:
  "rcv_stopped r0 l0 s \<Longrightarrow>
     (case dialWebRTC_step x s of
      None \<Rightarrow> True | Some t \<Rightarrow> rcv_stopped r0 l0 t)"
  by (auto simp add: rcv_stopped_def dialWebRTC_step_def
        newPeerConnectionForClient_step_def sendDone_def exchangeCancel_def nocall_def
        Combine_def Let_def
        split: mpc.split option.split)

lemma stopped_recv:
  "rcv_stopped r0 l0 s \<Longrightarrow>
     (case exchangeCandidates_Recv m s of
      None \<Rightarrow> True | Some t \<Rightarrow> rcv_stopped r0 l0 t)"
  by (auto simp add: rcv_stopped_def exchangeCandidates_Recv_def Let_def
        split: recv_result.split stage.split sum.split)

lemma stopped_receiver:
  "rcv_stopped r0 l0 s \<Longrightarrow>
     (case exchangeCandidates_step x s of
      None \<Rightarrow> True | Some t \<Rightarrow> rcv_stopped r0 l0 t)"
  by (auto simp add: rcv_stopped_def exchangeCandidates_step_def sendDone_def nocall_def
        Let_def
        split: rpc.split option.split)

lemma stopped_callback:
  "rcv_stopped r0 l0 s \<Longrightarrow>
     (case OnICECandidate_step i x s of
      None \<Rightarrow> True | Some t \<Rightarrow> rcv_stopped r0 l0 t)"
  by (auto simp add: rcv_stopped_def OnICECandidate_step_def sendDone_def nocall_def
        Let_def hsimps
        split: hpc.split option.split)

lemma stopped_select:
  "rcv_stopped r0 l0 s \<Longrightarrow>
     (case doCall_errCh sd x s of
      None \<Rightarrow> True | Some t \<Rightarrow> rcv_stopped r0 l0 t)"
  "rcv_stopped r0 l0 s \<Longrightarrow>
     (case select_ctx_Done x s of
      None \<Rightarrow> True | Some t \<Rightarrow> rcv_stopped r0 l0 t)"
  "rcv_stopped r0 l0 s \<Longrightarrow>
     (case select_gatherComplete s of
      None \<Rightarrow> True | Some t \<Rightarrow> rcv_stopped r0 l0 t)"
  "rcv_stopped r0 l0 s \<Longrightarrow>
     (case doCall_Ready s of
      None \<Rightarrow> True | Some t \<Rightarrow> rcv_stopped r0 l0 t)"
  "rcv_stopped r0 l0 s \<Longrightarrow>
     (case exchangeCandidates_sendErr_Done s of
      None \<Rightarrow> True | Some t \<Rightarrow> rcv_stopped r0 l0 t)"
  by (auto simp add: rcv_stopped_def doCall_errCh_def select_ctx_Done_def
        select_gatherComplete_def doCall_Ready_def exchangeCandidates_sendErr_Done_def
        nocall_def Combine_def hsimps
        split: hpc.split rpc.split mpc.split option.split)+

lemma stopped_env:
  "rcv_stopped r0 l0 s \<Longrightarrow>
     (case engine_gather g s of
      None \<Rightarrow> True | Some t \<Rightarrow> rcv_stopped r0 l0 t)"
  "rcv_stopped r0 l0 s \<Longrightarrow>
     (case OnICECandidate_remoteDescSet i s of
      None \<Rightarrow> True | Some t \<Rightarrow> rcv_stopped r0 l0 t)"
  "rcv_stopped r0 l0 s \<Longrightarrow>
     (case OnICECandidate_Done i s of
      None \<Rightarrow> True | Some t \<Rightarrow> rcv_stopped r0 l0 t)"
  "rcv_stopped r0 l0 s \<Longrightarrow>
     (case OnICECandidate_sendErr_Done i s of
      None \<Rightarrow> True | Some t \<Rightarrow> rcv_stopped r0 l0 t)"
  "rcv_stopped r0 l0 s \<Longrightarrow>
     (case ctx_cancel cc s of
      None \<Rightarrow> True | Some t \<Rightarrow> rcv_stopped r0 l0 t)"
  "rcv_stopped r0 l0 (s\<lparr>chReady := True\<rparr>) = rcv_stopped r0 l0 s"
  by (auto simp add: rcv_stopped_def engine_gather_def OnICECandidate_remoteDescSet_def
        OnICECandidate_Done_def OnICECandidate_sendErr_Done_def ctx_cancel_def Let_def
        hsimps
        split: hpc.split option.split)+

lemma stopped_step:
  assumes "rcv_stopped r0 l0 s" and "step e s = Some s'"
  shows "rcv_stopped r0 l0 s'"
  using assms(2)
  by (rule step_preserves)
     (use assms(1) in \<open>simp_all add: stopped_dial stopped_recv stopped_receiver
        stopped_callback stopped_select stopped_env\<close>)

lemma stopped_run: "rcv_stopped r0 l0 s \<Longrightarrow> run evs s = Some s' \<Longrightarrow> rcv_stopped r0 l0 s'"
  by (rule run_invariant [where P = "rcv_stopped r0 l0", OF stopped_step])

text \<open>
  A cancelled exchange context stays cancelled.
\<close>

lemma exch_done_dial:
  "exch_done s \<Longrightarrow>
     (case dialWebRTC_step x s of
      None \<Rightarrow> True | Some t \<Rightarrow> exch_done t)"
  by (auto simp add: exch_done_def dialWebRTC_step_def newPeerConnectionForClient_step_def
        sendDone_def exchangeCancel_def nocall_def Combine_def Let_def
        split: mpc.split option.split)

lemma exch_done_recv:
  "exch_done s \<Longrightarrow>
     (case exchangeCandidates_Recv m s of
      None \<Rightarrow> True | Some t \<Rightarrow> exch_done t)"
  by (auto simp add: exch_done_def exchangeCandidates_Recv_def Let_def
        split: recv_result.split stage.split sum.split)

lemma exch_done_receiver:
  "exch_done s \<Longrightarrow>
     (case exchangeCandidates_step x s of
      None \<Rightarrow> True | Some t \<Rightarrow> exch_done t)"
  by (auto simp add: exch_done_def exchangeCandidates_step_def sendDone_def nocall_def
        Let_def
        split: rpc.split option.split)

lemma exch_done_callback:
  "exch_done s \<Longrightarrow>
     (case OnICECandidate_step i x s of
      None \<Rightarrow> True | Some t \<Rightarrow> exch_done t)"
  by (auto simp add: exch_done_def OnICECandidate_step_def sendDone_def nocall_def Let_def
        hsimps
        split: hpc.split option.split)

lemma exch_done_select:
  "exch_done s \<Longrightarrow>
     (case doCall_errCh sd x s of
      None \<Rightarrow> True | Some t \<Rightarrow> exch_done t)"
  "exch_done s \<Longrightarrow>
     (case select_ctx_Done x s of
      None \<Rightarrow> True | Some t \<Rightarrow> exch_done t)"
  "exch_done s \<Longrightarrow>
     (case select_gatherComplete s of
      None \<Rightarrow> True | Some t \<Rightarrow> exch_done t)"
  "exch_done s \<Longrightarrow>
     (case doCall_Ready s of
      None \<Rightarrow> True | Some t \<Rightarrow> exch_done t)"
  "exch_done s \<Longrightarrow>
     (case exchangeCandidates_sendErr_Done s of
      None \<Rightarrow> True | Some t \<Rightarrow> exch_done t)"
  by (auto simp add: exch_done_def doCall_errCh_def select_ctx_Done_def
        select_gatherComplete_def doCall_Ready_def exchangeCandidates_sendErr_Done_def
        nocall_def Combine_def hsimps
        split: hpc.split rpc.split mpc.split option.split)+

lemma exch_done_env:
  "exch_done s \<Longrightarrow>
     (case engine_gather g s of
      None \<Rightarrow> True | Some t \<Rightarrow> exch_done t)"
  "exch_done s \<Longrightarrow>
     (case OnICECandidate_remoteDescSet i s of
      None \<Rightarrow> True | Some t \<Rightarrow> exch_done t)"
  "exch_done s \<Longrightarrow>
     (case OnICECandidate_Done i s of
      None \<Rightarrow> True | Some t \<Rightarrow> exch_done t)"
  "exch_done s \<Longrightarrow>
     (case OnICECandidate_sendErr_Done i s of
      None \<Rightarrow> True | Some t \<Rightarrow> exch_done t)"
  "exch_done s \<Longrightarrow>
     (case ctx_cancel cc s of
      None \<Rightarrow> True | Some t \<Rightarrow> exch_done t)"
  "exch_done (s\<lparr>chReady := True\<rparr>) = exch_done s"
  by (auto simp add: exch_done_def engine_gather_def OnICECandidate_remoteDescSet_def
        OnICECandidate_Done_def OnICECandidate_sendErr_Done_def ctx_cancel_def Let_def
        hsimps
        split: hpc.split option.split)+

lemma exch_done_step:
  assumes "exch_done s" and "step e s = Some s'"
  shows "exch_done s'"
  using assms(2)
  by (rule step_preserves)
     (use assms(1) in \<open>simp_all add: exch_done_dial exch_done_recv exch_done_receiver
        exch_done_callback exch_done_select exch_done_env\<close>)

lemma exch_done_run: "exch_done s \<Longrightarrow> run evs s = Some s' \<Longrightarrow> exch_done s'"
  by (rule run_invariant [where P = "exch_done", OF exch_done_step])

section \<open>The claims about the dial attempt\<close>

subsection \<open>Helper lemmas\<close>

lemmas step_defs = dialWebRTC_step_def newPeerConnectionForClient_step_def
  select_ctx_Done_def select_gatherComplete_def doCall_Ready_def doCall_errCh_def
  exchangeCandidates_Recv_def exchangeCandidates_step_def
  exchangeCandidates_sendErr_Done_def engine_gather_def OnICECandidate_step_def
  OnICECandidate_remoteDescSet_def OnICECandidate_Done_def
  OnICECandidate_sendErr_Done_def ctx_cancel_def sendDone_def exchangeCancel_def
  nocall_def Combine_def

lemma run_append: "run (xs @ ys) s = (case run xs s of None \<Rightarrow> None | Some t \<Rightarrow> run ys t)"
  by (induction xs arbitrary: s) (auto split: option.splits)

lemma run_split:
  "run (xs @ ys) s0 = Some s' \<Longrightarrow> run xs s0 = Some s \<Longrightarrow> run ys s = Some s'"
  by (simp add: run_append)

text \<open>
  The result of the dial: once it is pending, every step keeps the channel flag and
  appends to the error exactly what a call of the caller's goroutine returns.
\<close>

lemma ret_main:
  "ret_pending (mpc s) = Some (ch, err) \<Longrightarrow>
   (case dialWebRTC_step x s of None \<Rightarrow> True
    | Some t \<Rightarrow> ret_pending (mpc t) = Some (ch, err @ x))"
  by (auto simp add: dialWebRTC_step_def newPeerConnectionForClient_step_def sendDone_def
        exchangeCancel_def nocall_def Combine_def
        split: mpc.split option.split)

lemma ret_others:
  "ret_pending (mpc s) = Some (ch, err) \<Longrightarrow> select_ctx_Done x s = None"
  "ret_pending (mpc s) = Some (ch, err) \<Longrightarrow> select_gatherComplete s = None"
  "ret_pending (mpc s) = Some (ch, err) \<Longrightarrow> doCall_Ready s = None"
  "ret_pending (mpc s) = Some (ch, err) \<Longrightarrow> doCall_errCh sd x s = None"
  by (auto simp add: select_ctx_Done_def select_gatherComplete_def doCall_Ready_def
        doCall_errCh_def split: option.split mpc.split)

lemma mpc_others:
  "case ctx_cancel c s of None \<Rightarrow> True | Some t \<Rightarrow> mpc t = mpc s"
  "case engine_gather g s of None \<Rightarrow> True | Some t \<Rightarrow> mpc t = mpc s"
  "case exchangeCandidates_Recv m s of None \<Rightarrow> True | Some t \<Rightarrow> mpc t = mpc s"
  "case exchangeCandidates_step x s of None \<Rightarrow> True | Some t \<Rightarrow> mpc t = mpc s"
  "case exchangeCandidates_sendErr_Done s of None \<Rightarrow> True | Some t \<Rightarrow> mpc t = mpc s"
  "case OnICECandidate_step i x s of None \<Rightarrow> True | Some t \<Rightarrow> mpc t = mpc s"
  "case OnICECandidate_remoteDescSet i s of None \<Rightarrow> True | Some t \<Rightarrow> mpc t = mpc s"
  "case OnICECandidate_Done i s of None \<Rightarrow> True | Some t \<Rightarrow> mpc t = mpc s"
  "case OnICECandidate_sendErr_Done i s of None \<Rightarrow> True | Some t \<Rightarrow> mpc t = mpc s"
  by (auto simp add: ctx_cancel_def engine_gather_def exchangeCandidates_Recv_def
        exchangeCandidates_step_def exchangeCandidates_sendErr_Done_def
        OnICECandidate_step_def OnICECandidate_remoteDescSet_def OnICECandidate_Done_def
        OnICECandidate_sendErr_Done_def sendDone_def nocall_def Let_def
        split: option.split rpc.split hpc.split recv_result.split stage.split sum.split)

lemma ret_step:
  assumes "ret_pending (mpc s) = Some (ch, err)" and "step e s = Some s'"
  shows "ret_pending (mpc s') = Some (ch, err @ main_outcome e)"
proof (cases e)
  case (Main x) then show ?thesis
    using assms ret_main [where s=s and x=x] by simp
next
  case (CtxCancel c) then show ?thesis
    using assms mpc_others(1) [where s=s and c=c] by simp
next
  case DataChannelOpen then show ?thesis using assms by auto
next
  case (Gather g) then show ?thesis
    using assms mpc_others(2) [where s=s and g=g] by simp
next
  case (MainSelCtxDone x) then show ?thesis
    using assms ret_others(1) [where s=s and x=x] by simp
next
  case MainSelGatherComplete then show ?thesis
    using assms ret_others(2) [where s=s] by simp
next
  case MainSelReady then show ?thesis
    using assms ret_others(3) [where s=s] by simp
next
  case (MainSelErrCh sd x) then show ?thesis
    using assms ret_others(4) [where s=s and sd=sd and x=x] by simp
next
  case (Recv m) then show ?thesis
    using assms mpc_others(3) [where s=s and m=m] by simp
next
  case (RecvStep x) then show ?thesis
    using assms mpc_others(4) [where s=s and x=x] by simp
next
  case RecvSelDone then show ?thesis
    using assms mpc_others(5) [where s=s] by simp
next
  case (HookStep i x) then show ?thesis
    using assms mpc_others(6) [where s=s and i=i and x=x] by simp
next
  case (HookSelRemoteDescSet i) then show ?thesis
    using assms mpc_others(7) [where s=s and i=i] by simp
next
  case (HookSelDone i) then show ?thesis
    using assms mpc_others(8) [where s=s and i=i] by simp
next
  case (HookSendErrDone i) then show ?thesis
    using assms mpc_others(9) [where s=s and i=i] by simp
qed

lemma ret_run:
  "ret_pending (mpc s) = Some (ch, err) \<Longrightarrow> run evs s = Some s' \<Longrightarrow>
   ret_pending (mpc s') = Some (ch, err @ main_outcomes evs)"
proof (induction evs arbitrary: s err)
  case Nil
  then show ?case by (simp add: main_outcomes_def)
next
  case (Cons e es)
  from Cons.prems(2) obtain t where t: "step e s = Some t" and r: "run es t = Some s'"
    by (auto split: option.splits)
  from ret_step [OF Cons.prems(1) t]
  have "ret_pending (mpc t) = Some (ch, err @ main_outcome e)" .
  from Cons.IH [OF this r] show ?case by (simp add: main_outcomes_def)
qed

lemmas step_splits = mpc.split rpc.split hpc.split option.split recv_result.split
  stage.split sum.split

text \<open>A step changes the Termination Records of the log only by taking the guard.\<close>

lemma guard_step:
  assumes "step e s = Some s'"
  shows "filter is_termination (log s') = filter is_termination (log s)
         \<or> (\<not> sendDoneErrorOnce s \<and> sendDoneErrorOnce s')"
  using assms
  by (rule step_preserves) (auto simp add: step_defs Let_def split: step_splits)

text \<open>
  C1. In every state a dial attempt can reach, in either mode and under every interleaving
  and every outcome of the calls, the log holds at most one Termination Record (a done
  update or an error update). All of them go through the one guard: a record is in the log
  only if \<open>sendDoneErrorOnce\<close> has run, and a step adds a record only by taking the guard
  from not run to run, so once it has run no path (the gathering-complete callback, the init
  handling of vanilla mode, the readiness path, the failure path) adds another.
\<close>
theorem C1_one_termination_record:
  assumes "run evs (init dt) = Some s"
  shows "length (filter is_termination (log s)) \<le> 1
         \<and> (filter is_termination (log s) \<noteq> [] \<longrightarrow> sendDoneErrorOnce s)
         \<and> (\<forall>e s'. step e s = Some s' \<longrightarrow>
               filter is_termination (log s') = filter is_termination (log s)
               \<or> (\<not> sendDoneErrorOnce s \<and> sendDoneErrorOnce s'))"
  using once_run [OF assms] guard_step [of _ s] by (auto simp add: inv_once_def)

text \<open>The recursive check of a log, spelled out on a split of the log.\<close>

lemma candidates_after_remote_split:
  "candidates_after_remote xs \<Longrightarrow> xs = later @ x # earlier \<Longrightarrow> is_candidate_update x \<Longrightarrow>
   list_ex is_set_remote earlier"
  by (induction later arbitrary: xs) auto

lemma list_ex_is_set_remote:
  "list_ex is_set_remote xs \<longleftrightarrow> (\<exists>sdp. PC_SetRemoteDescription sdp \<in> set xs)"
proof (induction xs)
  case Nil
  then show ?case by simp
next
  case (Cons x xs)
  then show ?case by (cases x) auto
qed

lemma list_ex_is_candidate_update:
  "list_ex is_candidate_update xs
   \<longleftrightarrow> (\<exists>u w. Sig_CallUpdate u (Update_Candidate w) \<in> set xs)"
proof (induction xs)
  case Nil
  then show ?case by simp
next
  case (Cons x xs)
  show ?case
  proof (cases "is_candidate_update x")
    case True
    then obtain u w where "x = Sig_CallUpdate u (Update_Candidate w)"
      by (auto elim: is_candidate_update.elims)
    then show ?thesis by auto
  next
    case False
    then have "\<And>u w. x \<noteq> Sig_CallUpdate u (Update_Candidate w)" by auto
    with False Cons show ?thesis by auto
  qed
qed

text \<open>What the kernel unfolds to run one of the sample runs.\<close>

lemmas trace_defs = setup_trickle_def recv_init_def resp_init_def cand_a_def init_def
  eval_nat_numeral iceCandidateInitToProto_def iceCandidateFromProto_def

text \<open>
  Witness for C1: in \<open>trace_trickle_ok\<close> the gathering-complete callback sends the done
  update and the readiness path calls \<^verbatim>\<open>sendDone\<close> again; one record is in the log.
\<close>
theorem C1_one_termination_record_witness:
  "map_option (\<lambda>s. filter is_termination (log s)) (run trace_trickle_ok (init False))
     = Some [Sig_CallUpdate ''u1'' Update_Done]
   \<and> (\<exists>s. run trace_trickle_ok (init False) = Some s
          \<and> length (filter is_termination (log s)) \<le> 1)"
proof -
  obtain s where r: "run trace_trickle_ok (init False) = Some s"
    by (simp add: trace_trickle_ok_def trace_defs step_defs)
  have "map_option (\<lambda>s. filter is_termination (log s)) (run trace_trickle_ok (init False))
          = Some [Sig_CallUpdate ''u1'' Update_Done]"
    by (simp add: trace_trickle_ok_def trace_defs step_defs)
  then show ?thesis using C1_one_termination_record [OF r] r by simp
qed

text \<open>What a step of any thread does to a callback invocation waiting at its select.\<close>

lemma hook_parked:
  assumes "step ev s = Some s'" and "i < length (hooks s)" and "hooks s ! i = H_select c"
  shows "i < length (hooks s')
         \<and> (hooks s' ! i = H_select c
            \<or> (hooks s' ! i = H_send c \<and> remoteDescSet s)
            \<or> (hooks s' ! i = H_Returned \<and> exchErr s \<noteq> None))"
  using assms(1)
  by (rule step_preserves)
     (use assms(2,3) in \<open>auto simp add: step_defs Let_def hsimps split: step_splits\<close>)

text \<open>
  C2. In every reachable state: wherever the log splits at a candidate update, a
  successful \<^verbatim>\<open>SetRemoteDescription\<close> is among the earlier entries; the signal
  \<open>remoteDescSet\<close> is closed only after such a success; a callback invocation waiting at its \<^verbatim>\<open>select\<close> keeps its candidate
  under every step of every thread, and leaves the \<^verbatim>\<open>select\<close> only towards sending that
  same candidate, which needs the signal, or by returning, which needs the exchange
  context to be done; with the signal closed it can proceed to send; and the send it then
  makes is the update carrying the translation of that candidate.
\<close>
theorem C2_candidates_wait_for_remote_description:
  assumes "run evs (init dt) = Some s"
  shows "(\<forall>later u w earlier.
            log s = later @ Sig_CallUpdate u (Update_Candidate w) # earlier \<longrightarrow>
            (\<exists>sdp. PC_SetRemoteDescription sdp \<in> set earlier))
         \<and> (remoteDescSet s \<longrightarrow> (\<exists>sdp. PC_SetRemoteDescription sdp \<in> set (log s)))
         \<and> (\<forall>i c ev s'. i < length (hooks s) \<and> hooks s ! i = H_select c
                \<and> step ev s = Some s' \<longrightarrow>
               hooks s' ! i = H_select c
               \<or> (hooks s' ! i = H_send c \<and> remoteDescSet s)
               \<or> (hooks s' ! i = H_Returned \<and> exchErr s \<noteq> None))
         \<and> (\<forall>i c. i < length (hooks s) \<and> hooks s ! i = H_select c \<and> remoteDescSet s \<longrightarrow>
               step (HookSelRemoteDescSet i) s = Some (s\<lparr>hooks := (hooks s)[i := H_send c]\<rparr>))
         \<and> (\<forall>i c e. i < length (hooks s) \<and> hooks s ! i = H_send (Some c) \<longrightarrow>
               map_option log (step (HookStep i e) s)
               = Some (Sig_CallUpdate (uuid s) (Update_Candidate (iceCandidateInitToProto c))
                       # log s))"
proof -
  have "candidates_after_remote (log s)"
    using remote_run [OF assms] by (simp add: inv_remote_def)
  then have a: "\<forall>later u w earlier.
            log s = later @ Sig_CallUpdate u (Update_Candidate w) # earlier \<longrightarrow>
            (\<exists>sdp. PC_SetRemoteDescription sdp \<in> set earlier)"
    using candidates_after_remote_split [of "log s"] list_ex_is_set_remote
    by (metis is_candidate_update.simps(1))
  have b: "remoteDescSet s \<longrightarrow> (\<exists>sdp. PC_SetRemoteDescription sdp \<in> set (log s))"
    using remote_run [OF assms] by (simp add: inv_remote_def list_ex_is_set_remote)
  have c: "\<forall>i c ev s'. i < length (hooks s) \<and> hooks s ! i = H_select c
                \<and> step ev s = Some s' \<longrightarrow>
               hooks s' ! i = H_select c
               \<or> (hooks s' ! i = H_send c \<and> remoteDescSet s)
               \<or> (hooks s' ! i = H_Returned \<and> exchErr s \<noteq> None)"
    using hook_parked [of _ s] by blast
  have d: "\<forall>i c. i < length (hooks s) \<and> hooks s ! i = H_select c \<and> remoteDescSet s \<longrightarrow>
               step (HookSelRemoteDescSet i) s = Some (s\<lparr>hooks := (hooks s)[i := H_send c]\<rparr>)"
    by (simp add: OnICECandidate_remoteDescSet_def)
  have e: "\<forall>i c e. i < length (hooks s) \<and> hooks s ! i = H_send (Some c) \<longrightarrow>
               map_option log (step (HookStep i e) s)
               = Some (Sig_CallUpdate (uuid s) (Update_Candidate (iceCandidateInitToProto c))
                       # log s)"
    by (simp add: OnICECandidate_step_def)
  from a b c d e show ?thesis by blast
qed

text \<open>
  Witness for C2: in \<open>trace_trickle_wait\<close> a candidate is gathered before the answer is
  applied; its callback waits, cannot proceed, and the candidate is sent once the receiver
  has closed the signal.
\<close>
theorem C2_candidates_wait_for_remote_description_witness:
  "map_option hooks (run trace_trickle_wait (init False)) = Some [H_select (Some cand_a)]
   \<and> map_option remoteDescSet (run trace_trickle_wait (init False)) = Some False
   \<and> map_option log
        (run (trace_trickle_wait @ [RecvStep [], HookSelRemoteDescSet 0, HookStep 0 []])
           (init False))
      = Some ([] @ Sig_CallUpdate ''u1'' (Update_Candidate (iceCandidateInitToProto cand_a))
              # [PC_SetRemoteDescription ''answer'', Sig_Recv resp_init, Sig_Call [],
                 Sig_OptionalWebRTCConfig])
   \<and> (\<exists>s. run trace_trickle_wait (init False) = Some s
          \<and> step (HookSelRemoteDescSet 0) s = None
          \<and> (\<forall>ev s'. step ev s = Some s' \<longrightarrow>
                hooks s' ! 0 = H_select (Some cand_a)
                \<or> hooks s' ! 0 = H_Returned \<and> exchErr s \<noteq> None))
   \<and> (\<exists>sdp. PC_SetRemoteDescription sdp
          \<in> set [PC_SetRemoteDescription ''answer'', Sig_Recv resp_init, Sig_Call [],
                 Sig_OptionalWebRTCConfig])"
proof -
  let ?earlier = "[PC_SetRemoteDescription ''answer'', Sig_Recv resp_init, Sig_Call [],
                   Sig_OptionalWebRTCConfig]"
  have hk: "map_option hooks (run trace_trickle_wait (init False))
              = Some [H_select (Some cand_a)]"
    and rd: "map_option remoteDescSet (run trace_trickle_wait (init False)) = Some False"
    by (simp_all add: trace_trickle_wait_def trace_defs step_defs)
  have lg: "map_option log
        (run (trace_trickle_wait @ [RecvStep [], HookSelRemoteDescSet 0, HookStep 0 []])
           (init False))
      = Some ([] @ Sig_CallUpdate ''u1'' (Update_Candidate (iceCandidateInitToProto cand_a))
              # ?earlier)"
    by (simp add: trace_trickle_wait_def trace_defs step_defs)
  from hk obtain s where r: "run trace_trickle_wait (init False) = Some s"
    and h: "hooks s = [H_select (Some cand_a)]" by auto
  from rd r have n: "\<not> remoteDescSet s" by simp
  from lg obtain s' where
    r': "run (trace_trickle_wait @ [RecvStep [], HookSelRemoteDescSet 0, HookStep 0 []])
           (init False) = Some s'"
    and l': "log s' = [] @ Sig_CallUpdate ''u1''
                            (Update_Candidate (iceCandidateInitToProto cand_a)) # ?earlier"
    by auto
  have b: "step (HookSelRemoteDescSet 0) s = None"
    using h n by (simp add: OnICECandidate_remoteDescSet_def)
  have "\<forall>ev s'. step ev s = Some s' \<longrightarrow>
                hooks s' ! 0 = H_select (Some cand_a)
                \<or> hooks s' ! 0 = H_Returned \<and> exchErr s \<noteq> None"
    using C2_candidates_wait_for_remote_description [OF r] h n by auto
  moreover have "\<exists>sdp. PC_SetRemoteDescription sdp \<in> set ?earlier"
    using C2_candidates_wait_for_remote_description [OF r'] l' by blast
  ultimately show ?thesis using hk rd lg r b by blast
qed

text \<open>
  C3 (as stated, refuted). The claim says that in vanilla mode the done Termination Record
  is emitted when the init message is processed. In \<open>trace_vanilla_race\<close> the caller's
  context is cancelled after the receiver has applied the answer; the failure path sends
  the error update and uses up the one-shot guard; the receiver then closes the signal and
  calls \<^verbatim>\<open>sendDone\<close>, which sends nothing. The init message has been processed, the
  receiver has returned, and no done update is in the log.
\<close>
theorem C3_vanilla_done_suppressed_counterexample:
  "map_option log (run trace_vanilla_race (init True))
     = Some [Sig_CallUpdate ''u1'' (Update_Error [CtxErr Canceled]), Ch_Close,
             PC_SetRemoteDescription ''answer'', Sig_Recv resp_init, Sig_Call [cand_a],
             Sig_OptionalWebRTCConfig]
   \<and> map_option rpc (run trace_vanilla_race (init True)) = Some R_Returned
   \<and> map_option remoteDescSet (run trace_vanilla_race (init True)) = Some True"
  by (simp add: trace_vanilla_race_def trace_defs setup_vanilla_def step_defs)

text \<open>
  C3 (amended). In every state a vanilla-mode dial attempt can reach: no candidate update
  is in the log, no callback is installed and none runs; the factory does not pass its
  \<^verbatim>\<open>select\<close> while gathering is incomplete, so gathering is complete wherever the factory
  has returned successfully; the description sent in the initial request holds every
  candidate the engine gathers; after applying the answer the receiver closes the signal
  and goes straight to \<^verbatim>\<open>sendDone\<close>, whose step is enabled, leaves the receive loop, and
  adds the done update exactly when the one-shot guard has not run yet; and the guard has
  not run yet whenever the caller's goroutine is still waiting in \<^verbatim>\<open>doCall\<close>.
\<close>
theorem C3_vanilla_no_candidate_updates:
  assumes "run evs (init True) = Some s"
  shows "(\<forall>u w. Sig_CallUpdate u (Update_Candidate w) \<notin> set (log s))
         \<and> \<not> hookInstalled s \<and> hooks s = []
         \<and> (mpc s = M_F_select \<and> \<not> gatherComplete s \<longrightarrow> step MainSelGatherComplete s = None)
         \<and> (after_factory (mpc s) \<longrightarrow> gatherComplete s)
         \<and> (\<forall>sdp. Sig_Call sdp \<in> set (log s) \<longrightarrow> gatherComplete s \<and> sdp = localCands s)
         \<and> (rpc s = R_closeRemoteDescSet \<longrightarrow>
               step (RecvStep []) s = Some (s\<lparr>remoteDescSet := True, rpc := R_sendDone\<rparr>))
         \<and> (rpc s = R_sendDone \<longrightarrow>
               (\<not> sendDoneErrorOnce s \<longrightarrow> (\<forall>e. step (RecvStep e) s \<noteq> None))
               \<and> (\<forall>e s'. step (RecvStep e) s = Some s' \<longrightarrow>
                     receiver_left (rpc s')
                     \<and> log s' = (if sendDoneErrorOnce s then log s
                                 else Sig_CallUpdate (uuid s) Update_Done # log s)))
         \<and> (rpc s = R_sendDone \<and> mpc s = M_doCall \<longrightarrow> \<not> sendDoneErrorOnce s)"
proof -
  have m: "disableTrickle s" using mode_run [OF assms] by (simp add: inv_mode_def)
  have v: "inv_vanilla s" by (rule vanilla_run [OF assms])
  have a: "\<forall>u w. Sig_CallUpdate u (Update_Candidate w) \<notin> set (log s)"
      "\<not> hookInstalled s" "hooks s = []"
      "after_factory (mpc s) \<longrightarrow> gatherComplete s"
      "\<forall>sdp. Sig_Call sdp \<in> set (log s) \<longrightarrow> gatherComplete s \<and> sdp = localCands s"
    using v m by (simp_all add: inv_vanilla_def list_ex_is_candidate_update)
  have b: "mpc s = M_F_select \<and> \<not> gatherComplete s \<longrightarrow> step MainSelGatherComplete s = None"
    by (simp add: select_gatherComplete_def)
  have c: "rpc s = R_closeRemoteDescSet \<longrightarrow>
               step (RecvStep []) s = Some (s\<lparr>remoteDescSet := True, rpc := R_sendDone\<rparr>)"
    using m by (simp add: exchangeCandidates_step_def nocall_def)
  have d: "rpc s = R_sendDone \<longrightarrow>
               (\<not> sendDoneErrorOnce s \<longrightarrow> (\<forall>e. step (RecvStep e) s \<noteq> None))
               \<and> (\<forall>e s'. step (RecvStep e) s = Some s' \<longrightarrow>
                     receiver_left (rpc s')
                     \<and> log s' = (if sendDoneErrorOnce s then log s
                                 else Sig_CallUpdate (uuid s) Update_Done # log s))"
    by (auto simp add: exchangeCandidates_step_def sendDone_def split: if_splits)
  have e: "rpc s = R_sendDone \<and> mpc s = M_doCall \<longrightarrow> \<not> sendDoneErrorOnce s"
    using v m by (auto simp add: inv_vanilla_def)
  from a b c d e show ?thesis by blast
qed

text \<open>
  Witness for C3: in \<open>trace_vanilla_init\<close> the receiver has applied the answer while the
  caller waits in \<^verbatim>\<open>doCall\<close>, and its next step sends the done update; \<open>trace_vanilla_ok\<close>
  runs the dial to its successful end with the gathered candidate in the initial request.
\<close>
theorem C3_vanilla_no_candidate_updates_witness:
  "map_option rpc (run trace_vanilla_init (init True)) = Some R_sendDone
   \<and> map_option mpc (run trace_vanilla_init (init True)) = Some M_doCall
   \<and> map_option log (run trace_vanilla_ok (init True))
      = Some [Sig_CallUpdate ''u1'' Update_Done, PC_SetRemoteDescription ''answer'',
              Sig_Recv resp_init, Sig_Call [cand_a], Sig_OptionalWebRTCConfig]
   \<and> map_option mpc (run trace_vanilla_ok (init True)) = Some (M_Returned True [])
   \<and> (\<exists>s. run trace_vanilla_init (init True) = Some s
          \<and> \<not> sendDoneErrorOnce s
          \<and> (\<forall>u w. Sig_CallUpdate u (Update_Candidate w) \<notin> set (log s))
          \<and> gatherComplete s
          \<and> map_option log (step (RecvStep []) s)
             = Some (Sig_CallUpdate (uuid s) Update_Done # log s))"
proof -
  have p: "map_option rpc (run trace_vanilla_init (init True)) = Some R_sendDone"
    and m: "map_option mpc (run trace_vanilla_init (init True)) = Some M_doCall"
    by (simp_all add: trace_vanilla_init_def trace_defs setup_vanilla_def step_defs)
  have l: "map_option log (run trace_vanilla_ok (init True))
      = Some [Sig_CallUpdate ''u1'' Update_Done, PC_SetRemoteDescription ''answer'',
              Sig_Recv resp_init, Sig_Call [cand_a], Sig_OptionalWebRTCConfig]"
    and f: "map_option mpc (run trace_vanilla_ok (init True)) = Some (M_Returned True [])"
    by (simp_all add: trace_vanilla_ok_def trace_vanilla_init_def trace_defs
        setup_vanilla_def step_defs)
  from p obtain s where r: "run trace_vanilla_init (init True) = Some s"
    and h: "rpc s = R_sendDone" by auto
  from m r have h2: "mpc s = M_doCall" by simp
  from C3_vanilla_no_candidate_updates [OF r] h h2 have
    n: "\<not> sendDoneErrorOnce s" "\<forall>u w. Sig_CallUpdate u (Update_Candidate w) \<notin> set (log s)"
      "gatherComplete s"
    by auto
  from C3_vanilla_no_candidate_updates [OF r] h n(1) obtain s'
    where "step (RecvStep []) s = Some s'"
      and "log s' = Sig_CallUpdate (uuid s) Update_Done # log s"
    by (metis option.exhaust)
  then have "map_option log (step (RecvStep []) s)
             = Some (Sig_CallUpdate (uuid s) Update_Done # log s)" by simp
  with p m l f r n show ?thesis by blast
qed

text \<open>
  C4 (as stated, refuted). The claim says that after a cancellation the returned error is
  the cancellation cause and that nothing is sent to the signaling service once the
  channel wrapper is closed. In \<open>trace_cancel\<close> the \<^verbatim>\<open>select\<close> of \<^verbatim>\<open>doCall\<close> takes
  \<^verbatim>\<open><-ctx.Done()\<close> and closes the wrapper; the failure branch then calls \<^verbatim>\<open>CallUpdate\<close>
  with the error update, which is the entry made after \<open>Ch_Close\<close>; the call fails, and the
  returned error is the combination of the cancellation cause with that failure.
\<close>
theorem C4_cancel_counterexample:
  "map_option log (run trace_cancel (init False))
     = Some [Sig_CallUpdate [] (Update_Error [CtxErr Canceled]), Ch_Close, Sig_Call [],
             Sig_OptionalWebRTCConfig]
   \<and> map_option mpc (run trace_cancel (init False))
     = Some (M_Returned False [CtxErr Canceled, GrpcStatus 1])"
  by (simp add: trace_cancel_def trace_defs step_defs)

text \<open>
  C4 (amended). When the caller's context is done while \<^verbatim>\<open>doCall\<close> waits and the
  \<^verbatim>\<open>select\<close> takes that branch: the channel wrapper is closed; in every state of every
  continuation the exchange context is done, so every later call to the signaling service
  is made on a cancelled context; the result is a nil channel and the combination of the
  cancellation cause, first, with the errors of closing the wrapper and of the calls the
  caller's goroutine makes afterwards; the failure branch issues the error update exactly
  when the one-shot guard has not run; and past that branch the caller's goroutine makes
  no further entry in the log.
\<close>
theorem C4_cancellation:
  assumes "run evs0 (init dt) = Some s" and "mpc s = M_doCall" and "ctxErr s = Some c"
    and "run (MainSelCtxDone ce # evs) s = Some s'"
  shows "step (MainSelCtxDone ce) s
           = Some (s\<lparr>log := Ch_Close # log s, mpc := M_callErr (CtxErr c # ce)\<rparr>)
         \<and> exchErr s' \<noteq> None
         \<and> ret_pending (mpc s') = Some (False, CtxErr c # ce @ main_outcomes evs)
         \<and> (\<forall>callErr e t. mpc s' = M_callErr callErr \<and> step (Main e) s' = Some t \<longrightarrow>
               log t = (if sendDoneErrorOnce s' then log s'
                        else Sig_CallUpdate (uuid s') (Update_Error callErr) # log s'))
         \<and> (main_past_guard (mpc s') \<longrightarrow> (\<forall>e t. step (Main e) s' = Some t \<longrightarrow> log t = log s'))"
proof -
  let ?s1 = "s\<lparr>log := Ch_Close # log s, mpc := M_callErr (CtxErr c # ce)\<rparr>"
  have st: "step (MainSelCtxDone ce) s = Some ?s1"
    using assms(2,3) by (simp add: select_ctx_Done_def Combine_def)
  with assms(4) have r: "run evs ?s1 = Some s'" by simp
  have "exchErr s \<noteq> None" using ctx_run [OF assms(1)] assms(3) by (simp add: inv_ctx_def)
  then have "exch_done ?s1" by (simp add: exch_done_def)
  from exch_done_run [OF this r] have x: "exchErr s' \<noteq> None" by (simp add: exch_done_def)
  have "ret_pending (mpc ?s1) = Some (False, CtxErr c # ce)" by simp
  from ret_run [OF this r]
  have p: "ret_pending (mpc s') = Some (False, CtxErr c # ce @ main_outcomes evs)" by simp
  have f: "\<forall>callErr e t. mpc s' = M_callErr callErr \<and> step (Main e) s' = Some t \<longrightarrow>
               log t = (if sendDoneErrorOnce s' then log s'
                        else Sig_CallUpdate (uuid s') (Update_Error callErr) # log s')"
    by (auto simp add: dialWebRTC_step_def nocall_def split: if_splits)
  have g: "main_past_guard (mpc s') \<longrightarrow> (\<forall>e t. step (Main e) s' = Some t \<longrightarrow> log t = log s')"
    by (cases "mpc s'")
       (auto simp add: dialWebRTC_step_def nocall_def exchangeCancel_def split: if_splits)
  from st x p f g show ?thesis by blast
qed

text \<open>Witness for C4 (amended), on \<open>trace_cancel\<close>.\<close>
theorem C4_cancellation_witness:
  "map_option mpc (run (setup_trickle @ [CtxCancel Canceled]) (init False)) = Some M_doCall
   \<and> map_option ctxErr (run (setup_trickle @ [CtxCancel Canceled]) (init False))
      = Some (Some Canceled)
   \<and> (\<exists>s1 t. run (setup_trickle @ [CtxCancel Canceled, MainSelCtxDone []]) (init False)
                = Some s1
          \<and> mpc s1 = M_callErr [CtxErr Canceled]
          \<and> step (Main [GrpcStatus 1]) s1 = Some t
          \<and> log t = Sig_CallUpdate [] (Update_Error [CtxErr Canceled]) # log s1)
   \<and> (\<exists>s'. run trace_cancel (init False) = Some s'
          \<and> exchErr s' \<noteq> None
          \<and> ret_pending (mpc s') = Some (False, [CtxErr Canceled, GrpcStatus 1]))"
proof -
  let ?pre = "setup_trickle @ [CtxCancel Canceled]"
  let ?rest = "[Main [GrpcStatus 1], Main [], Main [], Main []]"
  have m: "map_option mpc (run ?pre (init False)) = Some M_doCall"
    and c: "map_option ctxErr (run ?pre (init False)) = Some (Some Canceled)"
    by (simp_all add: trace_defs step_defs)
  have p: "map_option (\<lambda>s. (mpc s, sendDoneErrorOnce s, uuid s))
             (run (?pre @ [MainSelCtxDone []]) (init False))
           = Some (M_callErr [CtxErr Canceled], False, [])"
    by (simp add: trace_defs step_defs)
  from m obtain s where r: "run ?pre (init False) = Some s" and h: "mpc s = M_doCall"
    by auto
  from c r have h2: "ctxErr s = Some Canceled" by simp
  from p obtain s1 where r1: "run (?pre @ [MainSelCtxDone []]) (init False) = Some s1"
    and h1: "mpc s1 = M_callErr [CtxErr Canceled]" "\<not> sendDoneErrorOnce s1" "uuid s1 = []"
    by auto
  from run_split [OF r1 r] have q1: "run (MainSelCtxDone [] # []) s = Some s1" .
  obtain t where st: "step (Main [GrpcStatus 1]) s1 = Some t"
    using h1 by (simp add: dialWebRTC_step_def)
  from C4_cancellation [OF r h h2 q1] h1 st
  have lt: "log t = Sig_CallUpdate [] (Update_Error [CtxErr Canceled]) # log s1" by simp
  have "\<exists>s'. run trace_cancel (init False) = Some s'"
    by (simp add: trace_cancel_def trace_defs step_defs)
  then obtain s' where t: "run trace_cancel (init False) = Some s'" by blast
  have "trace_cancel = ?pre @ MainSelCtxDone [] # ?rest"
    by (simp add: trace_cancel_def)
  with t r have r': "run (MainSelCtxDone [] # ?rest) s = Some s'"
    using run_split by metis
  from C4_cancellation [OF r h h2 r']
  have "exchErr s' \<noteq> None"
    and "ret_pending (mpc s') = Some (False, [CtxErr Canceled, GrpcStatus 1])"
    by (simp_all add: main_outcomes_def)
  moreover have "run (setup_trickle @ [CtxCancel Canceled, MainSelCtxDone []]) (init False)
                   = Some s1"
    using r1 by simp
  ultimately show ?thesis using m c t h1 st lt by blast
qed

text \<open>
  C5. When \<^verbatim>\<open>signalingClient.Call\<close> fails with a gRPC status of code Unimplemented,
  \<^verbatim>\<open>dialWebRTC\<close> returns a nil channel and \<open>ErrNoWebRTCSignaler\<close>, not the error of the
  call: in every continuation the result is \<open>ErrNoWebRTCSignaler\<close> followed by the errors of
  the deferred \<^verbatim>\<open>pc.Close()\<close> and \<^verbatim>\<open>conn.Close()\<close>, so it is \<open>ErrNoWebRTCSignaler\<close> alone
  when both succeed.
\<close>
theorem C5_no_signaler:
  assumes "mpc s = M_Call" and "is_Unimplemented e" and "run (Main e # evs) s = Some s'"
  shows "ret_pending (mpc s') = Some (False, ErrNoWebRTCSignaler # main_outcomes evs)"
proof -
  let ?s1 = "s\<lparr>log := Sig_Call (encodedSDP s) # log s,
                mpc := M_deferCancel False [ErrNoWebRTCSignaler]\<rparr>"
  have ne: "e \<noteq> []" using assms(2) by (auto simp add: is_Unimplemented_def)
  have "step (Main e) s = Some ?s1"
    using assms(1,2) ne by (simp add: dialWebRTC_step_def Let_def)
  with assms(3) have r: "run evs ?s1 = Some s'" by simp
  have "ret_pending (mpc ?s1) = Some (False, [ErrNoWebRTCSignaler])" by simp
  from ret_run [OF this r] show ?thesis by simp
qed

text \<open>Witness for C5: the call fails with status code 12 and both closes succeed.\<close>
theorem C5_no_signaler_witness:
  "map_option mpc (run setup_trickle_to_Call (init False)) = Some M_Call
   \<and> is_Unimplemented [GrpcStatus 12]
   \<and> map_option mpc
        (run (setup_trickle_to_Call @ [Main [GrpcStatus 12], Main [], Main [], Main []])
           (init False))
      = Some (M_Returned False [ErrNoWebRTCSignaler])
   \<and> (\<exists>s'. run (setup_trickle_to_Call @ [Main [GrpcStatus 12], Main [], Main [], Main []])
              (init False) = Some s'
          \<and> ret_pending (mpc s') = Some (False, [ErrNoWebRTCSignaler]))"
proof -
  let ?rest = "[Main [], Main [], Main []]"
  have m: "map_option mpc (run setup_trickle_to_Call (init False)) = Some M_Call"
    by (simp add: trace_defs setup_trickle_to_Call_def step_defs)
  have u: "is_Unimplemented [GrpcStatus 12]"
    by (simp add: is_Unimplemented_def codes_Unimplemented_def)
  have f: "map_option mpc
        (run (setup_trickle_to_Call @ [Main [GrpcStatus 12], Main [], Main [], Main []])
           (init False))
      = Some (M_Returned False [ErrNoWebRTCSignaler])"
    by (simp add: trace_defs setup_trickle_to_Call_def step_defs is_Unimplemented_def
        codes_Unimplemented_def)
  from m obtain s where r: "run setup_trickle_to_Call (init False) = Some s"
    and h: "mpc s = M_Call" by auto
  from f obtain s' where
    t: "run (setup_trickle_to_Call @ [Main [GrpcStatus 12], Main [], Main [], Main []])
          (init False) = Some s'" by auto
  from run_split [OF t r] have r': "run (Main [GrpcStatus 12] # ?rest) s = Some s'" .
  from C5_no_signaler [OF h u r']
  have "ret_pending (mpc s') = Some (False, [ErrNoWebRTCSignaler])"
    by (simp add: main_outcomes_def)
  with m u f t show ?thesis by blast
qed

text \<open>
  When the receiver rejects a message it goes to \<^verbatim>\<open>sendErr\<close> with the error, and from
  there on nothing is applied to the peer connection.
\<close>

lemma receiver_rejects:
  assumes r0: "run evs0 (init dt) = Some s" and rc: "rpc s = R_Recv"
    and st: "step (Recv (RecvOk m)) s = Some (s\<lparr>log := Sig_Recv m # log s, rpc := R_sendErr err\<rparr>)"
    and rn: "run (Recv (RecvOk m) # evs) s = Some s'"
  shows "(rpc s' = R_sendErr err \<or> rpc s' = R_Returned)
         \<and> filter is_pc_op (log s') = filter is_pc_op (log s)"
proof -
  let ?s1 = "s\<lparr>log := Sig_Recv m # log s, rpc := R_sendErr err\<rparr>"
  from st rn have r: "run evs ?s1 = Some s'" by simp
  have "\<not> before_go (mpc s)" using start_run [OF r0] rc by (auto simp add: inv_start_def)
  then have "rcv_stopped (R_sendErr err) (filter is_pc_op (log s)) ?s1"
    by (simp add: rcv_stopped_def)
  from stopped_run [OF this r] show ?thesis by (simp add: rcv_stopped_def)
qed

lemma errch_delivers:
  "rpc s = R_sendErr err \<and> mpc s = M_doCall \<longrightarrow>
     map_option mpc (step (MainSelErrCh None ce) s) = Some (M_callErr (err @ ce))"
  by (simp add: doCall_errCh_def Combine_def)

text \<open>
  C6. In every reachable state where the receiver is blocked in \<^verbatim>\<open>Recv\<close> and no init
  message has been received, receiving an update message makes \<^verbatim>\<open>exchangeCandidates\<close>
  return the error \<open>ErrUpdateBeforeInit\<close>: the receiver hands it to \<^verbatim>\<open>sendErr\<close> and never
  goes back to its loop; in every continuation no operation is applied to the peer
  connection any more, so the candidate is never added; and while \<^verbatim>\<open>doCall\<close> waits, the
  error is what it receives from \<^verbatim>\<open>errCh\<close>.
\<close>
theorem C6_update_before_init:
  assumes "run evs0 (init dt) = Some s" and "rpc s = R_Recv"
    and "assigned_uuid (log s) = None" and "resp_Stage m = CallResponse_Update c"
    and "run (Recv (RecvOk m) # evs) s = Some s'"
  shows "step (Recv (RecvOk m)) s
           = Some (s\<lparr>log := Sig_Recv m # log s, rpc := R_sendErr [ErrUpdateBeforeInit]\<rparr>)
         \<and> (rpc s' = R_sendErr [ErrUpdateBeforeInit] \<or> rpc s' = R_Returned)
         \<and> filter is_pc_op (log s') = filter is_pc_op (log s)
         \<and> (\<forall>ce. rpc s' = R_sendErr [ErrUpdateBeforeInit] \<and> mpc s' = M_doCall \<longrightarrow>
               map_option mpc (step (MainSelErrCh None ce) s')
               = Some (M_callErr (ErrUpdateBeforeInit # ce)))"
proof -
  have "\<not> haveInit s" using init_run [OF assms(1)] assms(3) by (auto simp add: inv_init_def)
  then have st: "step (Recv (RecvOk m)) s
           = Some (s\<lparr>log := Sig_Recv m # log s, rpc := R_sendErr [ErrUpdateBeforeInit]\<rparr>)"
    using assms(2,4) by (simp add: exchangeCandidates_Recv_def Let_def)
  from receiver_rejects [OF assms(1,2) st assms(5)] st
    errch_delivers [of s' "[ErrUpdateBeforeInit]"]
  show ?thesis by simp
qed

text \<open>Witness for C6: an update is the first message of the stream.\<close>
theorem C6_update_before_init_witness:
  "map_option rpc (run trace_recv_first (init False)) = Some R_Recv
   \<and> map_option (\<lambda>s. assigned_uuid (log s)) (run trace_recv_first (init False)) = Some None
   \<and> map_option rpc (run (trace_recv_first @ [Recv (RecvOk (resp_update ''u1''))]) (init False))
      = Some (R_sendErr [ErrUpdateBeforeInit])
   \<and> (\<exists>s'. run (trace_recv_first
                 @ [Recv (RecvOk (resp_update ''u1'')), MainSelErrCh None [], Main []])
              (init False) = Some s'
          \<and> rpc s' = R_Returned
          \<and> filter is_pc_op (log s') = []
          \<and> mpc s' = M_deferCancel False [ErrUpdateBeforeInit])"
proof -
  let ?m = "resp_update ''u1''"
  let ?rest = "[MainSelErrCh None [], Main []]"
  have a: "map_option rpc (run trace_recv_first (init False)) = Some R_Recv"
    and b: "map_option (\<lambda>s. assigned_uuid (log s)) (run trace_recv_first (init False))
              = Some None"
    and c: "map_option (\<lambda>s. filter is_pc_op (log s)) (run trace_recv_first (init False))
              = Some []"
    and d: "map_option rpc (run (trace_recv_first @ [Recv (RecvOk ?m)]) (init False))
              = Some (R_sendErr [ErrUpdateBeforeInit])"
    by (simp_all add: trace_recv_first_def trace_defs resp_update_def step_defs)
  have e: "map_option (\<lambda>s. (rpc s, mpc s))
             (run (trace_recv_first @ Recv (RecvOk ?m) # ?rest) (init False))
           = Some (R_Returned, M_deferCancel False [ErrUpdateBeforeInit])"
    by (simp add: trace_recv_first_def trace_defs resp_update_def step_defs)
  from a obtain s where r: "run trace_recv_first (init False) = Some s"
    and h: "rpc s = R_Recv" by auto
  from b r have h2: "assigned_uuid (log s) = None" by simp
  from c r have h3: "filter is_pc_op (log s) = []" by simp
  have h4: "resp_Stage ?m = CallResponse_Update (Some (iceCandidateInitToProto cand_a))"
    by (simp add: resp_update_def)
  from e obtain s' where
    t: "run (trace_recv_first @ Recv (RecvOk ?m) # ?rest) (init False) = Some s'"
    and f: "rpc s' = R_Returned" "mpc s' = M_deferCancel False [ErrUpdateBeforeInit]" by auto
  from run_split [OF t r] have r': "run (Recv (RecvOk ?m) # ?rest) s = Some s'" .
  from C6_update_before_init [OF r h h2 h4 r'] h3
  have "filter is_pc_op (log s') = []" by simp
  with a b d t f show ?thesis by auto
qed

text \<open>
  C7. In every reachable state where the receiver is blocked in \<^verbatim>\<open>Recv\<close> and the init
  message has assigned the session identifier \<open>u\<close>, receiving an update message with
  another identifier makes \<^verbatim>\<open>exchangeCandidates\<close> return the error
  \<open>ErrUUIDMismatch\<close> of the two identifiers: the receiver hands it to \<^verbatim>\<open>sendErr\<close> and never
  goes back to its loop; in every continuation no operation is applied to the peer
  connection any more, so the candidate is never added; and while \<^verbatim>\<open>doCall\<close> waits, the
  error is what it receives from \<^verbatim>\<open>errCh\<close>.
\<close>
theorem C7_update_uuid_mismatch:
  assumes "run evs0 (init dt) = Some s" and "rpc s = R_Recv"
    and "assigned_uuid (log s) = Some u" and "resp_Stage m = CallResponse_Update c"
    and "resp_Uuid m \<noteq> u"
    and "run (Recv (RecvOk m) # evs) s = Some s'"
  shows "step (Recv (RecvOk m)) s
           = Some (s\<lparr>log := Sig_Recv m # log s,
                     rpc := R_sendErr [ErrUUIDMismatch (resp_Uuid m) u]\<rparr>)
         \<and> (rpc s' = R_sendErr [ErrUUIDMismatch (resp_Uuid m) u] \<or> rpc s' = R_Returned)
         \<and> filter is_pc_op (log s') = filter is_pc_op (log s)
         \<and> (\<forall>ce. rpc s' = R_sendErr [ErrUUIDMismatch (resp_Uuid m) u] \<and> mpc s' = M_doCall \<longrightarrow>
               map_option mpc (step (MainSelErrCh None ce) s')
               = Some (M_callErr (ErrUUIDMismatch (resp_Uuid m) u # ce)))"
proof -
  have "haveInit s \<and> uuid s = u"
    using init_run [OF assms(1)] assms(3) by (auto simp add: inv_init_def)
  then have st: "step (Recv (RecvOk m)) s
           = Some (s\<lparr>log := Sig_Recv m # log s,
                     rpc := R_sendErr [ErrUUIDMismatch (resp_Uuid m) u]\<rparr>)"
    using assms(2,4,5) by (simp add: exchangeCandidates_Recv_def Let_def)
  from receiver_rejects [OF assms(1,2) st assms(6)] st
    errch_delivers [of s' "[ErrUUIDMismatch (resp_Uuid m) u]"]
  show ?thesis by simp
qed

text \<open>
  Witness for C7: after the init message with identifier \<open>u1\<close>, an update with \<open>u2\<close> is
  rejected, where the same update with \<open>u1\<close> is accepted.
\<close>
theorem C7_update_uuid_mismatch_witness:
  "map_option rpc (run trace_recv_second (init False)) = Some R_Recv
   \<and> map_option (\<lambda>s. assigned_uuid (log s)) (run trace_recv_second (init False))
      = Some (Some ''u1'')
   \<and> resp_Uuid (resp_update ''u2'') \<noteq> ''u1''
   \<and> map_option rpc (run (trace_recv_second @ [Recv (RecvOk (resp_update ''u2''))]) (init False))
      = Some (R_sendErr [ErrUUIDMismatch ''u2'' ''u1''])
   \<and> map_option rpc (run (trace_recv_second @ [Recv (RecvOk (resp_update ''u1''))]) (init False))
      = Some (R_AddICECandidate cand_a)
   \<and> (\<exists>s'. run (trace_recv_second
                 @ [Recv (RecvOk (resp_update ''u2'')), MainSelErrCh None [], Main []])
              (init False) = Some s'
          \<and> filter is_pc_op (log s') = [PC_SetRemoteDescription ''answer''])"
proof -
  let ?m = "resp_update ''u2''"
  let ?rest = "[MainSelErrCh None [], Main []]"
  have a: "map_option rpc (run trace_recv_second (init False)) = Some R_Recv"
    and b: "map_option (\<lambda>s. assigned_uuid (log s)) (run trace_recv_second (init False))
              = Some (Some ''u1'')"
    and c: "map_option (\<lambda>s. filter is_pc_op (log s)) (run trace_recv_second (init False))
              = Some [PC_SetRemoteDescription ''answer'']"
    and d: "map_option rpc (run (trace_recv_second @ [Recv (RecvOk ?m)]) (init False))
              = Some (R_sendErr [ErrUUIDMismatch ''u2'' ''u1''])"
    and d': "map_option rpc
               (run (trace_recv_second @ [Recv (RecvOk (resp_update ''u1''))]) (init False))
              = Some (R_AddICECandidate cand_a)"
    by (simp_all add: trace_recv_second_def trace_defs resp_update_def step_defs
        ucast_16_32_16)
  have e: "run (trace_recv_second @ Recv (RecvOk ?m) # ?rest) (init False) \<noteq> None"
    by (simp add: trace_recv_second_def trace_defs resp_update_def step_defs)
  from a obtain s where r: "run trace_recv_second (init False) = Some s"
    and h: "rpc s = R_Recv" by auto
  from b r have h2: "assigned_uuid (log s) = Some ''u1''" by simp
  from c r have h3: "filter is_pc_op (log s) = [PC_SetRemoteDescription ''answer'']" by simp
  have h4: "resp_Stage ?m = CallResponse_Update (Some (iceCandidateInitToProto cand_a))"
    and h5: "resp_Uuid ?m \<noteq> ''u1''"
    by (simp_all add: resp_update_def)
  from e obtain s' where
    t: "run (trace_recv_second @ Recv (RecvOk ?m) # ?rest) (init False) = Some s'" by auto
  from run_split [OF t r] have r': "run (Recv (RecvOk ?m) # ?rest) s = Some s'" .
  from C7_update_uuid_mismatch [OF r h h2 h4 h5 r'] h3
  have "filter is_pc_op (log s') = [PC_SetRemoteDescription ''answer'']" by simp
  with a b d d' h5 t show ?thesis by auto
qed

text \<open>
  C9 (as stated, refuted). The claim says that when the channel becomes ready before any
  cancellation or reported error, the established channel is returned. In
  \<open>trace_ready_done_fails\<close> the channel is ready, the context is not cancelled and the
  receiver has reported nothing, but the done update fails: \<^verbatim>\<open>dialWebRTC\<close> returns a nil
  channel and that error (lines 275-277).
\<close>
theorem C9_ready_done_fails_counterexample:
  "map_option mpc (run trace_ready_done_fails (init False))
     = Some (M_Returned False [GrpcStatus 14])
   \<and> map_option chReady (run trace_ready_done_fails (init False)) = Some True
   \<and> map_option ctxErr (run trace_ready_done_fails (init False)) = Some None
   \<and> map_option rpc (run trace_ready_done_fails (init False)) = Some R_Top"
  by (simp add: trace_ready_done_fails_def trace_defs step_defs)

text \<open>
  C9 (amended). When the channel is ready while \<^verbatim>\<open>doCall\<close> waits, the \<^verbatim>\<open>select\<close> can take
  that branch and the caller's goroutine goes to \<^verbatim>\<open>sendDone\<close>. There the done update is
  sent exactly when the one-shot guard has not run. If the guard has run, or the update
  succeeds, the channel is returned, together with the error of the deferred
  \<^verbatim>\<open>conn.Close()\<close> if there is one; if the update fails, a nil channel is returned with the
  error of the update followed by those of the deferred closes.
\<close>
theorem C9_ready:
  "(mpc s = M_doCall \<and> chReady s \<longrightarrow> step MainSelReady s = Some (s\<lparr>mpc := M_sendDone\<rparr>))
   \<and> (mpc s = M_sendDone \<longrightarrow>
        (\<forall>e evs s'. run (Main e # evs) s = Some s' \<longrightarrow>
           (sendDoneErrorOnce s \<longrightarrow> e = [])
           \<and> (\<exists>s1. step (Main e) s = Some s1 \<and> sendDoneErrorOnce s1
                 \<and> log s1 = (if sendDoneErrorOnce s then log s
                             else Sig_CallUpdate (uuid s) Update_Done # log s))
           \<and> ret_pending (mpc s') = Some (e = [], e @ main_outcomes evs)))"
proof -
  have a: "mpc s = M_doCall \<and> chReady s \<longrightarrow> step MainSelReady s = Some (s\<lparr>mpc := M_sendDone\<rparr>)"
    by (simp add: doCall_Ready_def)
  have b: "(sendDoneErrorOnce s \<longrightarrow> e = [])
           \<and> (\<exists>s1. step (Main e) s = Some s1 \<and> sendDoneErrorOnce s1
                 \<and> log s1 = (if sendDoneErrorOnce s then log s
                             else Sig_CallUpdate (uuid s) Update_Done # log s))
           \<and> ret_pending (mpc s') = Some (e = [], e @ main_outcomes evs)"
    if m: "mpc s = M_sendDone" and r: "run (Main e # evs) s = Some s'" for e evs s'
  proof -
    from r obtain s1 where st: "step (Main e) s = Some s1" and r1: "run evs s1 = Some s'"
      by (auto split: option.splits)
    from st m have f: "(sendDoneErrorOnce s \<longrightarrow> e = [])" "sendDoneErrorOnce s1"
        "log s1 = (if sendDoneErrorOnce s then log s
                   else Sig_CallUpdate (uuid s) Update_Done # log s)"
        "ret_pending (mpc s1) = Some (e = [], e)"
      by (auto simp add: dialWebRTC_step_def sendDone_def split: if_splits)
    from ret_run [OF f(4) r1] f(1,2,3) st show ?thesis by simp
  qed
  from a b show ?thesis by blast
qed

text \<open>Witness for C9 (amended): the channel is ready, the done update succeeds.\<close>
theorem C9_ready_witness:
  "map_option mpc (run (setup_trickle @ recv_init @ [DataChannelOpen]) (init False))
     = Some M_doCall
   \<and> map_option chReady (run (setup_trickle @ recv_init @ [DataChannelOpen]) (init False))
     = Some True
   \<and> (\<exists>s0. run (setup_trickle @ recv_init @ [DataChannelOpen]) (init False) = Some s0
          \<and> step MainSelReady s0 = Some (s0\<lparr>mpc := M_sendDone\<rparr>))
   \<and> (\<exists>s'. run (setup_trickle @ recv_init @ [DataChannelOpen, MainSelReady, Main [], Main [],
                 Main []]) (init False) = Some s'
          \<and> log s' = [Sig_CallUpdate ''u1'' Update_Done, PC_SetRemoteDescription ''answer'',
                       Sig_Recv resp_init, Sig_Call [], Sig_OptionalWebRTCConfig]
          \<and> ret_pending (mpc s') = Some (True, [])
          \<and> mpc s' = M_Returned True [])"
proof -
  let ?open = "setup_trickle @ recv_init @ [DataChannelOpen]"
  let ?pre = "setup_trickle @ recv_init @ [DataChannelOpen, MainSelReady]"
  let ?rest = "[Main [], Main []]"
  have a: "map_option mpc (run ?open (init False)) = Some M_doCall"
    and b: "map_option chReady (run ?open (init False)) = Some True"
    and c: "map_option mpc (run ?pre (init False)) = Some M_sendDone"
    by (simp_all add: trace_defs step_defs)
  have d: "map_option (\<lambda>s. (log s, mpc s)) (run (?pre @ Main [] # ?rest) (init False))
      = Some ([Sig_CallUpdate ''u1'' Update_Done, PC_SetRemoteDescription ''answer'',
                       Sig_Recv resp_init, Sig_Call [], Sig_OptionalWebRTCConfig],
              M_Returned True [])"
    by (simp add: trace_defs step_defs)
  from a obtain s0 where r0: "run ?open (init False) = Some s0" and h0: "mpc s0 = M_doCall"
    by auto
  from b r0 have h0': "chReady s0" by simp
  from C9_ready [of s0] h0 h0'
  have st0: "step MainSelReady s0 = Some (s0\<lparr>mpc := M_sendDone\<rparr>)" by blast
  from c obtain s where r: "run ?pre (init False) = Some s" and h: "mpc s = M_sendDone"
    by auto
  from d obtain s' where t: "run (?pre @ Main [] # ?rest) (init False) = Some s'"
    and l: "log s' = [Sig_CallUpdate ''u1'' Update_Done, PC_SetRemoteDescription ''answer'',
                       Sig_Recv resp_init, Sig_Call [], Sig_OptionalWebRTCConfig]"
       "mpc s' = M_Returned True []" by auto
  from run_split [OF t r] have r': "run (Main [] # ?rest) s = Some s'" .
  from C9_ready [of s] h r' have "ret_pending (mpc s') = Some (True, [])"
    by (auto simp add: main_outcomes_def)
  moreover from t have "run (setup_trickle @ recv_init @ [DataChannelOpen, MainSelReady, Main [],
                 Main [], Main []]) (init False) = Some s'" by simp
  ultimately show ?thesis using a b r0 st0 l by blast
qed

text \<open>
  C10. In every reachable state where \<^verbatim>\<open>doCall\<close> has returned an error and no init message
  has been received, the failure branch is not stopped by the one-shot guard: its step
  issues \<^verbatim>\<open>CallUpdate\<close> with the error update and the empty session identifier.
\<close>
theorem C10_error_update_without_session_id:
  assumes "run evs0 (init dt) = Some s" and "mpc s = M_callErr callErr"
    and "assigned_uuid (log s) = None"
  shows "step (Main e) s
           = Some (s\<lparr>sendDoneErrorOnce := True,
                     log := Sig_CallUpdate [] (Update_Error callErr) # log s,
                     mpc := M_deferCancel False (callErr @ e)\<rparr>)"
proof -
  have "\<not> haveInit s \<and> uuid s = [] \<and> \<not> sendDoneErrorOnce s"
    using init_run [OF assms(1)] assms(2,3) by (auto simp add: inv_init_def)
  then show ?thesis using assms(2) by (simp add: dialWebRTC_step_def Combine_def)
qed

text \<open>Witness for C10: \<^verbatim>\<open>Recv\<close> fails before any message has arrived.\<close>
theorem C10_error_update_without_session_id_witness:
  "map_option mpc (run trace_recv_fails (init False)) = Some (M_callErr [GrpcStatus 14])
   \<and> map_option (\<lambda>s. assigned_uuid (log s)) (run trace_recv_fails (init False)) = Some None
   \<and> (\<exists>s. run trace_recv_fails (init False) = Some s
          \<and> map_option log (step (Main []) s)
             = Some (Sig_CallUpdate [] (Update_Error [GrpcStatus 14]) # log s))"
proof -
  have a: "map_option mpc (run trace_recv_fails (init False)) = Some (M_callErr [GrpcStatus 14])"
    and b: "map_option (\<lambda>s. assigned_uuid (log s)) (run trace_recv_fails (init False))
              = Some None"
    by (simp_all add: trace_recv_fails_def trace_defs step_defs is_EOF_def)
  from a obtain s where r: "run trace_recv_fails (init False) = Some s"
    and h: "mpc s = M_callErr [GrpcStatus 14]" by auto
  from b r have h2: "assigned_uuid (log s) = None" by simp
  from C10_error_update_without_session_id [OF r h h2, of "[]"]
  have "map_option log (step (Main []) s)
             = Some (Sig_CallUpdate [] (Update_Error [GrpcStatus 14]) # log s)" by simp
  with a b r show ?thesis by blast
qed

end
